theory Spec2Isabelle
  imports Main "HOL-Library.Char_ord" "HOL-Library.List_Lexorder" "HOL-Library.DAList"
begin

text \<open>
  A shallow embedding of the Go package \<^verbatim>\<open>github.com/itsatony/go-version\<close>: the semantic
  version parser (\<^verbatim>\<open>internal/semver\<close>), the manifest loader with its source precedence and
  strict mode, enrichment, the validators, the Info snapshot with its copying getters,
  and the singleton.  Functions keep the names of the source.  What the package takes
  from outside (the file system, the YAML decoder, the linker-set variables, the Go
  runtime, the clock) is a record \<open>env\<close> that the functions receive; maps live in an
  explicit store, so that aliasing can be stated; errors are values.
\<close>

section \<open>Errors as values\<close>

text \<open>
  Every error the library builds is made by \<^verbatim>\<open>fmt.Errorf(format, operands...)\<close>, one of the
  sentinels, or comes from a collaborator (the operating system, the YAML decoder).
  An \<open>Errorf\<close> value keeps the format string and the operands of the call that made it, so
  the call site, the values it names and the error it wraps (operand of \<^verbatim>\<open>%w\<close>) can all
  be read back.  \<open>OSError\<close> stands for an error of \<^verbatim>\<open>os.ReadFile\<close>: the library observes
  it only through its text and through \<^verbatim>\<open>os.IsNotExist\<close>, which are its two fields.
\<close>

datatype error =
    ErrNotExist
  | OSError string bool
  | YamlError string
  | CustomError string string string
  | Errorf string "operand list"
and operand = Str string | Err error

section \<open>Package semver: the library functions it calls\<close>

text \<open>
  \<^verbatim>\<open>strings.TrimPrefix(s, prefix)\<close>: \<open>s\<close> without the leading \<open>prefix\<close>, or \<open>s\<close> itself.
\<close>

definition TrimPrefix :: "string \<Rightarrow> string \<Rightarrow> string" where
  "TrimPrefix s pre = (if take (length pre) s = pre then drop (length pre) s else s)"

text \<open>
  \<^verbatim>\<open>strings.SplitN(s, sep, n)\<close> and \<^verbatim>\<open>strings.Split(s, sep)\<close> for a one-byte separator and
  \<open>n > 0\<close>: the pieces between separators, at most \<open>n\<close> of them, the last one being the
  unsplit rest.  The result is never empty; splitting the empty string gives one empty
  piece.
\<close>

fun cons_first :: "char \<Rightarrow> string list \<Rightarrow> string list" where
  "cons_first c [] = [[c]]"
| "cons_first c (p # ps) = (c # p) # ps"

fun SplitN :: "string \<Rightarrow> char \<Rightarrow> nat \<Rightarrow> string list" where
  "SplitN [] sep n = (if n = 0 then [] else [[]])"
| "SplitN (c # cs) sep n =
     (if n = 0 then []
      else if c = sep \<and> 1 < n then [] # SplitN cs sep (n - 1)
      else cons_first c (SplitN cs sep n))"

fun Split :: "string \<Rightarrow> char \<Rightarrow> string list" where
  "Split [] sep = [[]]"
| "Split (c # cs) sep =
     (if c = sep then [] # Split cs sep else cons_first c (Split cs sep))"

text \<open>
  \<^verbatim>\<open>strconv.Atoi\<close> on a platform whose \<^verbatim>\<open>int\<close> has 64 bits: an optional sign, then one
  or more decimal digits and nothing else; a value outside the range of \<^verbatim>\<open>int\<close> is an
  error as well.  \<open>None\<close> is the error return (the callers drop the error value).
\<close>

definition maxInt :: int where
  "maxInt = 2 ^ 63 - 1"

definition isDigit :: "char \<Rightarrow> bool" where
  "isDigit c = (CHR ''0'' \<le> c \<and> c \<le> CHR ''9'')"

definition digitVal :: "char \<Rightarrow> nat" where
  "digitVal c = of_char c - of_char CHR ''0''"

fun atoiDigits :: "nat \<Rightarrow> string \<Rightarrow> nat option" where
  "atoiDigits acc [] = Some acc"
| "atoiDigits acc (c # cs) =
     (if isDigit c then atoiDigits (acc * 10 + digitVal c) cs else None)"

definition Atoi :: "string \<Rightarrow> int option" where
  "Atoi s =
     (case s of
        [] \<Rightarrow> None
      | c # cs \<Rightarrow>
          (let neg = (c = CHR ''-'');
               ds = (if c = CHR ''-'' \<or> c = CHR ''+'' then cs else s)
           in if ds = [] then None
              else (case atoiDigits 0 ds of
                      None \<Rightarrow> None
                    | Some n \<Rightarrow>
                        (if neg then (if int n \<le> maxInt + 1 then Some (- int n) else None)
                         else (if int n \<le> maxInt then Some (int n) else None)))))"

text \<open>The verb \<^verbatim>\<open>%d\<close> of \<^verbatim>\<open>fmt.Sprintf\<close>: decimal digits, with a minus sign below zero.\<close>

definition digitChar :: "nat \<Rightarrow> char" where
  "digitChar d = ''0123456789'' ! d"

fun natDigits :: "nat \<Rightarrow> string" where
  "natDigits n = (if n < 10 then [digitChar n] else natDigits (n div 10) @ [digitChar (n mod 10)])"

declare natDigits.simps [simp del]

definition fmtInt :: "int \<Rightarrow> string" where
  "fmtInt i = (if i < 0 then CHR ''-'' # natDigits (nat (- i)) else natDigits (nat i))"

section \<open>Package semver: Version, Parse, String, Compare\<close>

record Version =
  Major :: int
  Minor :: int
  Patch :: int
  Prerelease :: string
  Build :: string

text \<open>
  \<^verbatim>\<open>Parse\<close>, statement by statement.  The indexings \<open>parts ! 0\<close> and \<open>coreParts ! 0\<close> are in
  range because \<open>SplitN\<close> and \<open>Split\<close> never return an empty list; the others are
  guarded by the length tests of the source.
\<close>

definition parseCore :: "string \<Rightarrow> string \<Rightarrow> string \<Rightarrow> string list \<Rightarrow> error + Version" where
  "parseCore s prereleasePart buildPart coreParts =
     (if length coreParts < 1 \<or> 3 < length coreParts
      then Inl (Errorf ''invalid version format: %s'' [Str s])
      else (case Atoi (coreParts ! 0) of
              None \<Rightarrow> Inl (Errorf ''invalid major version: %s'' [Str (coreParts ! 0)])
            | Some major \<Rightarrow>
               (case (if 1 < length coreParts then Atoi (coreParts ! 1) else Some 0) of
                  None \<Rightarrow> Inl (Errorf ''invalid minor version: %s'' [Str (coreParts ! 1)])
                | Some minor \<Rightarrow>
                   (case (if 2 < length coreParts then Atoi (coreParts ! 2) else Some 0) of
                      None \<Rightarrow> Inl (Errorf ''invalid patch version: %s'' [Str (coreParts ! 2)])
                    | Some patch \<Rightarrow>
                        Inr \<lparr>Major = major, Minor = minor, Patch = patch,
                             Prerelease = prereleasePart, Version.Build = buildPart\<rparr>))))"

definition Parse :: "string \<Rightarrow> error + Version" where
  "Parse s0 =
     (let s = TrimPrefix s0 ''v''
      in if s = [] then Inl (Errorf ''empty version string'' [])
         else
           (let parts = SplitN s CHR ''+'' 2;
                versionPart = parts ! 0;
                buildPart = (if 1 < length parts then parts ! 1 else []);
                parts' = SplitN versionPart CHR ''-'' 2;
                corePart = parts' ! 0;
                prereleasePart = (if 1 < length parts' then parts' ! 1 else []);
                coreParts = Split corePart CHR ''.''
            in parseCore s prereleasePart buildPart coreParts))"

definition String :: "Version \<Rightarrow> string" where
  "String v =
     (let s = fmtInt (Major v) @ ''.'' @ fmtInt (Minor v) @ ''.'' @ fmtInt (Patch v);
          s = (if Prerelease v \<noteq> [] then s @ ''-'' @ Prerelease v else s);
          s = (if Version.Build v \<noteq> [] then s @ ''+'' @ Version.Build v else s)
      in s)"

text \<open>
  \<^verbatim>\<open>Compare\<close>.  Go compares strings byte by byte, a proper prefix being smaller: on
  \<open>string\<close> that is the lexicographic order \<open><\<close> over the byte order of characters.
\<close>

definition Compare :: "Version \<Rightarrow> Version \<Rightarrow> int" where
  "Compare v other =
     (if Major v \<noteq> Major other then (if Major v < Major other then - 1 else 1)
      else if Minor v \<noteq> Minor other then (if Minor v < Minor other then - 1 else 1)
      else if Patch v \<noteq> Patch other then (if Patch v < Patch other then - 1 else 1)
      else if Prerelease v = [] \<and> Prerelease other \<noteq> [] then 1
      else if Prerelease v \<noteq> [] \<and> Prerelease other = [] then - 1
      else if Prerelease v \<noteq> Prerelease other
           then (if Prerelease v < Prerelease other then - 1 else 1)
      else 0)"

definition LessThan :: "Version \<Rightarrow> Version \<Rightarrow> bool" where
  "LessThan v other = (Compare v other < 0)"

definition GreaterThan :: "Version \<Rightarrow> Version \<Rightarrow> bool" where
  "GreaterThan v other = (Compare v other > 0)"

definition Equal :: "Version \<Rightarrow> Version \<Rightarrow> bool" where
  "Equal v other = (Compare v other = 0)"

definition GreaterThanOrEqual :: "Version \<Rightarrow> Version \<Rightarrow> bool" where
  "GreaterThanOrEqual v other = (Compare v other \<ge> 0)"

definition LessThanOrEqual :: "Version \<Rightarrow> Version \<Rightarrow> bool" where
  "LessThanOrEqual v other = (Compare v other \<le> 0)"

text \<open>
  The order of section 4.1 of the specification, in its own words: the three numbers in
  turn, then release above pre-release, then the pre-release tags as plain strings,
  byte by byte.  \<open>lexLess\<close> spells the string order out.
\<close>

fun lexLess :: "string \<Rightarrow> string \<Rightarrow> bool" where
  "lexLess [] [] = False"
| "lexLess [] (y # ys) = True"
| "lexLess (x # xs) [] = False"
| "lexLess (x # xs) (y # ys) =
     ((of_char x :: nat) < of_char y \<or> (x = y \<and> lexLess xs ys))"

definition numCompare :: "int \<Rightarrow> int \<Rightarrow> int" where
  "numCompare x y = (if x < y then - 1 else if y < x then 1 else 0)"

definition compare_spec :: "Version \<Rightarrow> Version \<Rightarrow> int" where
  "compare_spec a b =
     (if numCompare (Major a) (Major b) \<noteq> 0 then numCompare (Major a) (Major b)
      else if numCompare (Minor a) (Minor b) \<noteq> 0 then numCompare (Minor a) (Minor b)
      else if numCompare (Patch a) (Patch b) \<noteq> 0 then numCompare (Patch a) (Patch b)
      else if Prerelease a = [] \<and> Prerelease b = [] then 0
      else if Prerelease a = [] then 1
      else if Prerelease b = [] then - 1
      else if lexLess (Prerelease a) (Prerelease b) then - 1
      else if lexLess (Prerelease b) (Prerelease a) then 1
      else 0)"

section \<open>Constants of package version\<close>

definition ManifestVersionConst :: string where "ManifestVersionConst = ''1.0''"
definition ManifestFilenameYAML :: string where "ManifestFilenameYAML = ''versions.yaml''"

definition DefaultGitCommit :: string where "DefaultGitCommit = ''dev''"
definition DefaultGitTreeState :: string where "DefaultGitTreeState = ''clean''"
definition DefaultBuildTime :: string where "DefaultBuildTime = ''unknown''"
definition DefaultBuildUser :: string where "DefaultBuildUser = []"
definition DefaultProjectName :: string where "DefaultProjectName = ''unknown''"
definition DefaultProjectVersion :: string where "DefaultProjectVersion = ''0.0.0-dev''"
definition GitTreeStateDirty :: string where "GitTreeStateDirty = ''dirty''"

definition GitCmdName :: string where "GitCmdName = ''git''"
definition GitCmdRevParse :: string where "GitCmdRevParse = ''rev-parse''"
definition GitCmdDescribe :: string where "GitCmdDescribe = ''describe''"
definition GitArgHead :: string where "GitArgHead = ''HEAD''"
definition GitArgTags :: string where "GitArgTags = ''--tags''"
definition GitArgExactMatch :: string where "GitArgExactMatch = ''--exact-match''"

definition VCSKeyRevision :: string where "VCSKeyRevision = ''vcs.revision''"
definition VCSKeyTime :: string where "VCSKeyTime = ''vcs.time''"
definition VCSKeyModified :: string where "VCSKeyModified = ''vcs.modified''"
definition VCSValueTrue :: string where "VCSValueTrue = ''true''"

definition ErrMsgNotInitialized :: string where
  "ErrMsgNotInitialized = ''version not initialized''"
definition ErrMsgInitializeMultiple :: string where
  "ErrMsgInitializeMultiple =
     ''version.Initialize() was already called (singleton enforces single initialization)''"
definition ErrMsgLoadManifest :: string where "ErrMsgLoadManifest = ''failed to load manifest''"
definition ErrMsgParseYAML :: string where "ErrMsgParseYAML = ''failed to parse YAML''"
definition ErrMsgProjectNameRequired :: string where
  "ErrMsgProjectNameRequired = ''project name is required in manifest''"
definition ErrMsgProjectVersionRequired :: string where
  "ErrMsgProjectVersionRequired = ''project version is required in manifest''"
definition ErrMsgValidationFailedWrap :: string where
  "ErrMsgValidationFailedWrap = ''validation failed''"
definition ErrMsgStrictModeManifestRequired :: string where
  "ErrMsgStrictModeManifestRequired = ''strict mode: manifest file is required but not found''"

definition ErrHintStrictMode :: string where
  "ErrHintStrictMode =
     ''Either create the required manifest file or remove WithStrictMode() option''"
definition ErrHintProjectNameRequired :: string where
  "ErrHintProjectNameRequired =
     ''Add project name to your manifest:\<newline>  project:\<newline>    name: \"your-app-name\"\<newline>    version: \"1.0.0\"''"
definition ErrHintProjectVersionRequired :: string where
  "ErrHintProjectVersionRequired =
     ''Add project version to your manifest:\<newline>  project:\<newline>    name: \"your-app-name\"\<newline>    version: \"1.0.0\"''"
definition ErrHintParseYAML :: string where
  "ErrHintParseYAML =
     ''Check YAML syntax at https://www.yamllint.com/ or validate with: yamllint versions.yaml''"
definition ErrHintInitializeMultiple :: string where
  "ErrHintInitializeMultiple =
     ''The singleton can only be initialized once. Options:\<newline>'' @
     ''  1. Call Initialize() at application startup before any Get()/MustGet() calls\<newline>'' @
     ''  2. Use version.Get() to retrieve the already-initialized singleton\<newline>'' @
     ''  3. Use version.New(opts...) to create a new non-singleton instance\<newline>'' @
     ''  4. In tests only: call version.Reset() before re-initializing''"
definition ErrHintSchemaNotFound :: string where
  "ErrHintSchemaNotFound =
     ''Add the schema to your versions.yaml:\<newline>  schemas:\<newline>    schema_name: \"version\"''"
definition ErrHintAPINotFound :: string where
  "ErrHintAPINotFound =
     ''Add the API to your versions.yaml:\<newline>  apis:\<newline>    api_name: \"version\"''"
definition ErrHintComponentNotFound :: string where
  "ErrHintComponentNotFound =
     ''Add the component to your versions.yaml:\<newline>  components:\<newline>    component_name: \"version\"''"
definition ErrHintVersionTooOld :: string where
  "ErrHintVersionTooOld = ''Update the version in your manifest to meet the minimum requirement''"

text \<open>The format strings quote the item with the apostrophe, written \<open>CHR 0x27\<close> here.\<close>

definition quoted :: "string \<Rightarrow> string" where
  "quoted s = CHR 0x27 # s @ [CHR 0x27]"

definition ErrFmtSchemaNotFound :: string where
  "ErrFmtSchemaNotFound = ''schema '' @ quoted ''%s'' @ '' not found in manifest''"
definition ErrFmtInvalidSchemaVersion :: string where
  "ErrFmtInvalidSchemaVersion =
     ''invalid schema version '' @ quoted ''%s'' @ '' for '' @ quoted ''%s'' @ '': %w''"
definition ErrFmtInvalidMinVersion :: string where
  "ErrFmtInvalidMinVersion =
     ''invalid minimum version '' @ quoted ''%s'' @ '' for validator: %w''"
definition ErrFmtSchemaTooOld :: string where
  "ErrFmtSchemaTooOld =
     ''schema '' @ quoted ''%s'' @ '' version %s is less than required minimum %s''"

definition ErrFmtCategoryWrap :: string where "ErrFmtCategoryWrap = ''[%s] %s: %w''"
definition ErrFmtCategory :: string where "ErrFmtCategory = ''[%s] %s''"
definition HintSuffix :: string where "HintSuffix = ''\<newline>Hint: %s''"

section \<open>Errors of package version\<close>

definition ErrNotInitialized :: error where
  "ErrNotInitialized = CustomError ''CORE'' ''NOT_INITIALIZED'' ErrMsgNotInitialized"

type_synonym ErrorCategory = string

definition CategoryManifest :: ErrorCategory where "CategoryManifest = ''manifest''"
definition CategoryValidation :: ErrorCategory where "CategoryValidation = ''validation''"

text \<open>
  The source's \<^verbatim>\<open>wrapError\<close> and \<^verbatim>\<open>wrapErrorWithHint\<close> start with
  \<^verbatim>\<open>if err == nil { return nil }\<close>.  The nil error is not a value of type \<open>error\<close> here
  (a possibly nil error is an \<open>error option\<close>), and every call site passes an error that
  it has just tested to be non-nil, so the two functions are defined on errors proper.
  \<open>HintSuffix\<close> is the literal that the source appends to a format to add the hint.
\<close>

definition wrapError :: "error \<Rightarrow> ErrorCategory \<Rightarrow> string \<Rightarrow> error" where
  "wrapError err category msg = Errorf ErrFmtCategoryWrap [Str category, Str msg, Err err]"

definition newCategoryErrorWithHint :: "ErrorCategory \<Rightarrow> string \<Rightarrow> string \<Rightarrow> error" where
  "newCategoryErrorWithHint category msg hint =
     Errorf (ErrFmtCategory @ HintSuffix) [Str category, Str msg, Str hint]"

definition wrapErrorWithHint :: "error \<Rightarrow> ErrorCategory \<Rightarrow> string \<Rightarrow> string \<Rightarrow> error" where
  "wrapErrorWithHint err category msg hint =
     Errorf (ErrFmtCategoryWrap @ HintSuffix) [Str category, Str msg, Err err, Str hint]"

text \<open>
  \<^verbatim>\<open>os.IsNotExist\<close>: true of \<^verbatim>\<open>os.ErrNotExist\<close> and of the operating system's own
  "no such file" errors; it does not look inside an error made by \<^verbatim>\<open>fmt.Errorf\<close>.
\<close>

fun IsNotExist :: "error \<Rightarrow> bool" where
  "IsNotExist ErrNotExist = True"
| "IsNotExist (OSError msg notExist) = notExist"
| "IsNotExist (YamlError msg) = False"
| "IsNotExist (CustomError category code msg) = False"
| "IsNotExist (Errorf f operands) = False"

section \<open>Data model: Manifest, Info and the store of maps\<close>

text \<open>
  A Go map is a reference to a table of entries with unique keys.  The tables live in a
  store, one list per element type; a map value is the index of its table, or
  \<open>None\<close> for the nil map.  A table is a \<open>(string, 'a) alist\<close>, whose entry list is the
  order in which \<^verbatim>\<open>range\<close> visits it.  The type \<open>'v\<close> is what a
  \<^verbatim>\<open>map[string]interface{}\<close> holds; copying such a value copies a reference when the
  value is one.  The field \<open>ext\<close> of the world is whatever else a caller-supplied
  validator acts on.
\<close>

type_synonym mapref = "nat option"

record ('v, 'x) world =
  strMaps :: "(string, string) alist list"
  anyMaps :: "(string, 'v) alist list"
  ext :: 'x

text \<open>
  The Manifest is decoded by the YAML library, read once and dropped; its maps are
  given by their entries (\<open>None\<close> when the section is absent and the field stays nil).
\<close>

record ProjectManifest =
  Name :: string
  Version :: string

record 'v Manifest =
  ManifestVersion :: string
  Project :: ProjectManifest
  Schemas :: "(string, string) alist option"
  APIs :: "(string, string) alist option"
  Components :: "(string, string) alist option"
  Custom :: "(string, 'v) alist option"

record ProjectVersion =
  Name :: string
  Version :: string

record GitInfo =
  Commit :: string
  Tag :: string
  TreeState :: string
  CommitTime :: string

record BuildInfo =
  Time :: string
  User :: string
  GoVersion :: string

type_synonym Time = nat

record Info =
  Project :: ProjectVersion
  Git :: GitInfo
  Build :: BuildInfo
  schemas :: mapref
  apis :: mapref
  components :: mapref
  custom :: mapref
  loadedAt :: Time

subsection \<open>The map operations of the language\<close>

text \<open>\<^verbatim>\<open>make(map[string]string, n)\<close>: a new, empty table at a fresh index.\<close>

definition makeStrMap :: "('v, 'x) world \<Rightarrow> nat \<times> ('v, 'x) world" where
  "makeStrMap w = (length (strMaps w), w\<lparr>strMaps := strMaps w @ [DAList.empty]\<rparr>)"

definition makeAnyMap :: "('v, 'x) world \<Rightarrow> nat \<times> ('v, 'x) world" where
  "makeAnyMap w = (length (anyMaps w), w\<lparr>anyMaps := anyMaps w @ [DAList.empty]\<rparr>)"

text \<open>\<^verbatim>\<open>m[k] = v\<close> on the table at index \<open>a\<close>.\<close>

definition strAssign :: "nat \<Rightarrow> string \<Rightarrow> string \<Rightarrow> ('v, 'x) world \<Rightarrow> ('v, 'x) world" where
  "strAssign a k v w = w\<lparr>strMaps := (strMaps w)[a := DAList.update k v (strMaps w ! a)]\<rparr>"

definition anyAssign :: "nat \<Rightarrow> string \<Rightarrow> 'v \<Rightarrow> ('v, 'x) world \<Rightarrow> ('v, 'x) world" where
  "anyAssign a k v w = w\<lparr>anyMaps := (anyMaps w)[a := DAList.update k v (anyMaps w ! a)]\<rparr>"

text \<open>
  The loop \<^verbatim>\<open>for k, v := range src { dst[k] = v }\<close>, over the entries of \<open>src\<close> in the
  order \<^verbatim>\<open>range\<close> yields them.
\<close>

fun copyStrEntries :: "nat \<Rightarrow> (string \<times> string) list \<Rightarrow> ('v, 'x) world \<Rightarrow> ('v, 'x) world" where
  "copyStrEntries dst [] w = w"
| "copyStrEntries dst ((k, v) # rest) w = copyStrEntries dst rest (strAssign dst k v w)"

fun copyAnyEntries :: "nat \<Rightarrow> (string \<times> 'v) list \<Rightarrow> ('v, 'x) world \<Rightarrow> ('v, 'x) world" where
  "copyAnyEntries dst [] w = w"
| "copyAnyEntries dst ((k, v) # rest) w = copyAnyEntries dst rest (anyAssign dst k v w)"










section \<open>Info: the accessors\<close>

text \<open>
  \<^verbatim>\<open>v, ok := i.schemas[name]\<close> gives the zero value and false for a missing key.
\<close>

definition lookupVersion :: "('v, 'x) world \<Rightarrow> mapref \<Rightarrow> string \<Rightarrow> string \<times> bool" where
  "lookupVersion w m name =
     (case m of
        None \<Rightarrow> ([], False)
      | Some a \<Rightarrow> (case DAList.lookup (strMaps w ! a) name of
                    None \<Rightarrow> ([], False)
                  | Some v \<Rightarrow> (v, True)))"

definition GetSchemaVersion :: "('v, 'x) world \<Rightarrow> Info \<Rightarrow> string \<Rightarrow> string \<times> bool" where
  "GetSchemaVersion w i name = lookupVersion w (schemas i) name"

definition GetAPIVersion :: "('v, 'x) world \<Rightarrow> Info \<Rightarrow> string \<Rightarrow> string \<times> bool" where
  "GetAPIVersion w i name = lookupVersion w (apis i) name"

definition GetComponentVersion :: "('v, 'x) world \<Rightarrow> Info \<Rightarrow> string \<Rightarrow> string \<times> bool" where
  "GetComponentVersion w i name = lookupVersion w (components i) name"

text \<open>
  The four copying getters have one body, up to the field and the element type:
  nil for a nil field, otherwise a new map filled from the field's entries.
\<close>

definition copyStrMap :: "mapref \<Rightarrow> ('v, 'x) world \<Rightarrow> mapref \<times> ('v, 'x) world" where
  "copyStrMap m w =
     (case m of
        None \<Rightarrow> (None, w)
      | Some a \<Rightarrow>
          (let (c, w1) = makeStrMap w
           in (Some c, copyStrEntries c (DAList.impl_of (strMaps w ! a)) w1)))"

definition copyAnyMap :: "mapref \<Rightarrow> ('v, 'x) world \<Rightarrow> mapref \<times> ('v, 'x) world" where
  "copyAnyMap m w =
     (case m of
        None \<Rightarrow> (None, w)
      | Some a \<Rightarrow>
          (let (c, w1) = makeAnyMap w
           in (Some c, copyAnyEntries c (DAList.impl_of (anyMaps w ! a)) w1)))"

definition GetSchemas :: "Info \<Rightarrow> ('v, 'x) world \<Rightarrow> mapref \<times> ('v, 'x) world" where
  "GetSchemas i w = copyStrMap (schemas i) w"

definition GetAPIs :: "Info \<Rightarrow> ('v, 'x) world \<Rightarrow> mapref \<times> ('v, 'x) world" where
  "GetAPIs i w = copyStrMap (apis i) w"

definition GetComponents :: "Info \<Rightarrow> ('v, 'x) world \<Rightarrow> mapref \<times> ('v, 'x) world" where
  "GetComponents i w = copyStrMap (components i) w"

definition GetCustom :: "Info \<Rightarrow> ('v, 'x) world \<Rightarrow> mapref \<times> ('v, 'x) world" where
  "GetCustom i w = copyAnyMap (custom i) w"

section \<open>The copy-out contract of the map getters\<close>








section \<open>Load options\<close>

text \<open>
  A \<^verbatim>\<open>context.Context\<close> is opaque to the library: the background context, or one the
  caller made.  A validator reads the snapshot and answers nil (\<open>None\<close>) or an error;
  whatever else it does (a test double that records its calls) it does to the world.
\<close>

datatype Context = Background | CallerContext nat

type_synonym ('v, 'x) Validator =
  "Context \<Rightarrow> Info \<Rightarrow> ('v, 'x) world \<Rightarrow> error option \<times> ('v, 'x) world"

record ('v, 'x) LoadOptions =
  manifestPath :: string
  manifestEmbed :: string
  includeGit :: bool
  includeBuild :: bool
  validators :: "('v, 'x) Validator list"
  strictMode :: bool
  ctx :: "Context option"

definition defaultLoadOptions :: "('v, 'x) LoadOptions" where
  "defaultLoadOptions =
     \<lparr>manifestPath = ManifestFilenameYAML, manifestEmbed = [], includeGit = True,
      includeBuild = True, validators = [], strictMode = False, ctx = None\<rparr>"

type_synonym ('v, 'x) Option = "('v, 'x) LoadOptions \<Rightarrow> ('v, 'x) LoadOptions"

definition WithManifestPath :: "string \<Rightarrow> ('v, 'x) Option" where
  "WithManifestPath path = (\<lambda>opts. opts\<lparr>manifestPath := path\<rparr>)"

definition WithEmbedded :: "string \<Rightarrow> ('v, 'x) Option" where
  "WithEmbedded data = (\<lambda>opts. opts\<lparr>manifestEmbed := data\<rparr>)"

definition WithGitInfo :: "('v, 'x) Option" where
  "WithGitInfo = (\<lambda>opts. opts\<lparr>includeGit := True\<rparr>)"

definition WithoutGitInfo :: "('v, 'x) Option" where
  "WithoutGitInfo = (\<lambda>opts. opts\<lparr>includeGit := False\<rparr>)"

definition WithBuildInfo :: "('v, 'x) Option" where
  "WithBuildInfo = (\<lambda>opts. opts\<lparr>includeBuild := True\<rparr>)"

definition WithoutBuildInfo :: "('v, 'x) Option" where
  "WithoutBuildInfo = (\<lambda>opts. opts\<lparr>includeBuild := False\<rparr>)"

definition WithValidators :: "('v, 'x) Validator list \<Rightarrow> ('v, 'x) Option" where
  "WithValidators vs = (\<lambda>opts. opts\<lparr>validators := validators opts @ vs\<rparr>)"

definition WithStrictMode :: "('v, 'x) Option" where
  "WithStrictMode = (\<lambda>opts. opts\<lparr>strictMode := True\<rparr>)"

definition WithContext :: "Context option \<Rightarrow> ('v, 'x) Option" where
  "WithContext c = (\<lambda>opts. opts\<lparr>ctx := c\<rparr>)"

text \<open>The loop \<^verbatim>\<open>for _, opt := range opts { opt(options) }\<close> over the default options.\<close>

definition applyOptions :: "('v, 'x) Option list \<Rightarrow> ('v, 'x) LoadOptions" where
  "applyOptions opts = fold (\<lambda>opt options. opt options) opts defaultLoadOptions"

section \<open>The environment of a load\<close>

text \<open>
  What the loader takes from outside the repository: the file system
  (\<^verbatim>\<open>os.ReadFile\<close>), the YAML decoder (\<^verbatim>\<open>yaml.Unmarshal\<close> into a zero Manifest: an error
  or the filled struct), the five package variables that the linker may set, the Go
  runtime (\<^verbatim>\<open>runtime.Version\<close>, \<^verbatim>\<open>runtime.GOOS\<close>, the settings of
  \<^verbatim>\<open>debug.ReadBuildInfo\<close>), the process launcher (\<^verbatim>\<open>exec.LookPath\<close>; the output of a
  command run under the timeout, \<open>None\<close> when \<^verbatim>\<open>Output\<close> returns an error),
  \<^verbatim>\<open>strings.TrimSpace\<close>, the clock and \<^verbatim>\<open>testing.Testing\<close>.
\<close>

record 'v env =
  readFile :: "string \<Rightarrow> error + string"
  yamlUnmarshal :: "string \<Rightarrow> error + 'v Manifest"
  GitCommit :: string
  GitTag :: string
  GitTreeState :: string
  BuildTime :: string
  BuildUser :: string
  runtimeVersion :: string
  runtimeGOOS :: string
  readBuildInfo :: "(string \<times> string) list option"
  lookPath :: "string \<Rightarrow> string option"
  commandOutput :: "string \<Rightarrow> string list \<Rightarrow> string option"
  TrimSpace :: "string \<Rightarrow> string"
  timeNow :: Time
  testingTesting :: bool

section \<open>The loader\<close>

definition parseManifest :: "'v env \<Rightarrow> string \<Rightarrow> error + 'v Manifest" where
  "parseManifest env data =
     (case yamlUnmarshal env data of
        Inl err \<Rightarrow> Inl (wrapError err CategoryManifest ErrMsgParseYAML)
      | Inr decoded \<Rightarrow>
          (let manifest = (if ManifestVersion decoded = []
                           then decoded\<lparr>ManifestVersion := ManifestVersionConst\<rparr>
                           else decoded)
           in if ProjectManifest.Name (Manifest.Project manifest) = []
              then Inl (newCategoryErrorWithHint CategoryManifest
                          ErrMsgProjectNameRequired ErrHintProjectNameRequired)
              else if ProjectManifest.Version (Manifest.Project manifest) = []
              then Inl (newCategoryErrorWithHint CategoryManifest
                          ErrMsgProjectVersionRequired ErrHintProjectVersionRequired)
              else Inr manifest))"

definition loadManifest :: "'v env \<Rightarrow> ('v, 'x) LoadOptions \<Rightarrow> error + 'v Manifest" where
  "loadManifest env options =
     (if 0 < length (manifestEmbed options) then parseManifest env (manifestEmbed options)
      else if manifestPath options \<noteq> []
      then (case readFile env (manifestPath options) of
              Inl err \<Rightarrow> Inl err
            | Inr data \<Rightarrow> parseManifest env data)
      else Inl ErrNotExist)"

definition defaultManifest :: "'v Manifest" where
  "defaultManifest =
     \<lparr>ManifestVersion = ManifestVersionConst,
      Manifest.Project = \<lparr>ProjectManifest.Name = DefaultProjectName,
                          ProjectManifest.Version = DefaultProjectVersion\<rparr>,
      Schemas = None, APIs = None, Components = None, Custom = None\<rparr>"

text \<open>
  One block of \<^verbatim>\<open>manifestToInfo\<close>:
  \<^verbatim>\<open>if m.Schemas != nil { info.schemas = make(...); for k, v := range m.Schemas { info.schemas[k] = v } }\<close>.
\<close>

definition strMapFrom ::
  "(string, string) alist option \<Rightarrow> ('v, 'x) world \<Rightarrow> mapref \<times> ('v, 'x) world" where
  "strMapFrom src w =
     (case src of
        None \<Rightarrow> (None, w)
      | Some entries \<Rightarrow>
          (let (c, w1) = makeStrMap w
           in (Some c, copyStrEntries c (DAList.impl_of entries) w1)))"

definition anyMapFrom ::
  "(string, 'v) alist option \<Rightarrow> ('v, 'x) world \<Rightarrow> mapref \<times> ('v, 'x) world" where
  "anyMapFrom src w =
     (case src of
        None \<Rightarrow> (None, w)
      | Some entries \<Rightarrow>
          (let (c, w1) = makeAnyMap w
           in (Some c, copyAnyEntries c (DAList.impl_of entries) w1)))"

definition manifestToInfo ::
  "'v env \<Rightarrow> 'v Manifest \<Rightarrow> ('v, 'x) world \<Rightarrow> Info \<times> ('v, 'x) world" where
  "manifestToInfo env m w =
     (let info = \<lparr>Info.Project =
                    \<lparr>ProjectVersion.Name = ProjectManifest.Name (Manifest.Project m),
                     ProjectVersion.Version = ProjectManifest.Version (Manifest.Project m)\<rparr>,
                  Git = \<lparr>Commit = DefaultGitCommit, Tag = [],
                         TreeState = DefaultGitTreeState, CommitTime = []\<rparr>,
                  Info.Build = \<lparr>Time = DefaultBuildTime, User = [],
                                GoVersion = runtimeVersion env\<rparr>,
                  schemas = None, apis = None, components = None, custom = None,
                  loadedAt = 0\<rparr>;
          (s, w1) = strMapFrom (Schemas m) w;
          (a, w2) = strMapFrom (APIs m) w1;
          (c, w3) = strMapFrom (Components m) w2;
          (u, w4) = anyMapFrom (Custom m) w3
      in (info\<lparr>schemas := s, apis := a, components := c, custom := u\<rparr>, w4))"

subsection \<open>Enrichment\<close>

definition applyLdflagsGitInfo :: "'v env \<Rightarrow> Info \<Rightarrow> Info" where
  "applyLdflagsGitInfo env info =
     (let info = (if GitCommit env \<noteq> DefaultGitCommit
                  then info\<lparr>Git := (Git info)\<lparr>Commit := GitCommit env\<rparr>\<rparr> else info);
          info = (if GitTag env \<noteq> []
                  then info\<lparr>Git := (Git info)\<lparr>Tag := GitTag env\<rparr>\<rparr> else info);
          info = (if GitTreeState env \<noteq> DefaultGitTreeState
                  then info\<lparr>Git := (Git info)\<lparr>TreeState := GitTreeState env\<rparr>\<rparr> else info)
      in info)"

fun applySettings :: "(string \<times> string) list \<Rightarrow> Info \<Rightarrow> Info" where
  "applySettings [] info = info"
| "applySettings ((key, val) # rest) info =
     applySettings rest
       (if key = VCSKeyRevision
        then (if Commit (Git info) = DefaultGitCommit
              then info\<lparr>Git := (Git info)\<lparr>Commit := val\<rparr>\<rparr> else info)
        else if key = VCSKeyTime
        then (if CommitTime (Git info) = []
              then info\<lparr>Git := (Git info)\<lparr>CommitTime := val\<rparr>\<rparr> else info)
        else if key = VCSKeyModified
        then (if val = VCSValueTrue
              then info\<lparr>Git := (Git info)\<lparr>TreeState := GitTreeStateDirty\<rparr>\<rparr> else info)
        else info)"

definition applyBuildInfoGitData :: "'v env \<Rightarrow> Info \<Rightarrow> Info" where
  "applyBuildInfoGitData env info =
     (case readBuildInfo env of None \<Rightarrow> info | Some settings \<Rightarrow> applySettings settings info)"

definition safeLocations :: "string list" where
  "safeLocations = [''/usr/bin/git'', ''/usr/local/bin/git'', ''/opt/homebrew/bin/git'']"

definition getGitBinary :: "'v env \<Rightarrow> string" where
  "getGitBinary env =
     (case lookPath env GitCmdName of
        None \<Rightarrow> []
      | Some gitPath \<Rightarrow>
          (if runtimeGOOS env \<noteq> ''windows'' \<and> \<not> List.member safeLocations gitPath then []
           else gitPath))"

definition isHex :: "char \<Rightarrow> bool" where
  "isHex c = ((CHR ''0'' \<le> c \<and> c \<le> CHR ''9'') \<or> (CHR ''a'' \<le> c \<and> c \<le> CHR ''f'')
              \<or> (CHR ''A'' \<le> c \<and> c \<le> CHR ''F''))"

definition isValidCommitHash :: "string \<Rightarrow> bool" where
  "isValidCommitHash hash =
     (if length hash < 7 \<or> 40 < length hash then False else list_all isHex hash)"

definition getGitCommit :: "'v env \<Rightarrow> string" where
  "getGitCommit env =
     (let gitBinary = getGitBinary env
      in if gitBinary = [] then []
         else (case commandOutput env gitBinary [GitCmdRevParse, GitArgHead] of
                 None \<Rightarrow> []
               | Some output \<Rightarrow>
                   (let hash = TrimSpace env output
                    in if \<not> isValidCommitHash hash then [] else hash)))"

definition getGitTag :: "'v env \<Rightarrow> string" where
  "getGitTag env =
     (let gitBinary = getGitBinary env
      in if gitBinary = [] then []
         else (case commandOutput env gitBinary [GitCmdDescribe, GitArgTags, GitArgExactMatch] of
                 None \<Rightarrow> []
               | Some output \<Rightarrow> TrimSpace env output))"

definition applyGitCommandFallback :: "'v env \<Rightarrow> Info \<Rightarrow> Info" where
  "applyGitCommandFallback env info =
     (let info = (if Commit (Git info) = DefaultGitCommit \<and> getGitCommit env \<noteq> []
                  then info\<lparr>Git := (Git info)\<lparr>Commit := getGitCommit env\<rparr>\<rparr> else info);
          info = (if Tag (Git info) = [] \<and> getGitTag env \<noteq> []
                  then info\<lparr>Git := (Git info)\<lparr>Tag := getGitTag env\<rparr>\<rparr> else info)
      in info)"

definition enrichWithGitInfo :: "'v env \<Rightarrow> Info \<Rightarrow> Info" where
  "enrichWithGitInfo env info =
     applyGitCommandFallback env (applyBuildInfoGitData env (applyLdflagsGitInfo env info))"

text \<open>
  The last block of \<^verbatim>\<open>enrichWithBuildInfo\<close> calls \<^verbatim>\<open>debug.ReadBuildInfo\<close> and drops the
  result; it changes nothing.
\<close>

definition enrichWithBuildInfo :: "'v env \<Rightarrow> Info \<Rightarrow> Info" where
  "enrichWithBuildInfo env info =
     (let info = (if BuildTime env \<noteq> DefaultBuildTime
                  then info\<lparr>Info.Build := (Info.Build info)\<lparr>Time := BuildTime env\<rparr>\<rparr> else info);
          info = (if BuildUser env \<noteq> DefaultBuildUser
                  then info\<lparr>Info.Build := (Info.Build info)\<lparr>User := BuildUser env\<rparr>\<rparr> else info)
      in info\<lparr>Info.Build := (Info.Build info)\<lparr>GoVersion := runtimeVersion env\<rparr>\<rparr>)"

subsection \<open>loadVersionInfo\<close>

text \<open>
  The body of \<^verbatim>\<open>loadVersionInfo\<close> in its four steps.  First the manifest, or its
  replacement by the defaults, or the fatal error.
\<close>

definition manifestOrDefault :: "'v env \<Rightarrow> ('v, 'x) LoadOptions \<Rightarrow> error + 'v Manifest" where
  "manifestOrDefault env options =
     (case loadManifest env options of
        Inr manifest \<Rightarrow> Inr manifest
      | Inl err \<Rightarrow>
          (if strictMode options
           then (if IsNotExist err
                 then Inl (newCategoryErrorWithHint CategoryManifest
                             ErrMsgStrictModeManifestRequired ErrHintStrictMode)
                 else Inl (wrapErrorWithHint err CategoryManifest ErrMsgLoadManifest ErrHintParseYAML))
           else if \<not> IsNotExist err
           then Inl (wrapErrorWithHint err CategoryManifest ErrMsgLoadManifest ErrHintParseYAML)
           else Inr defaultManifest))"

text \<open>Then the snapshot: conversion, the load time, the two enrichment passes.\<close>

definition enrichedInfo ::
  "'v env \<Rightarrow> ('v, 'x) LoadOptions \<Rightarrow> 'v Manifest \<Rightarrow> ('v, 'x) world \<Rightarrow> Info \<times> ('v, 'x) world" where
  "enrichedInfo env options manifest w =
     (let (info, w1) = manifestToInfo env manifest w;
          info = info\<lparr>loadedAt := timeNow env\<rparr>;
          info = (if includeGit options then enrichWithGitInfo env info else info);
          info = (if includeBuild options then enrichWithBuildInfo env info else info)
      in (info, w1))"

text \<open>
  Then the loop over the validators, which returns at the first error.  \<open>None\<close> means
  that the loop ran to its end.
\<close>

fun runValidators ::
  "('v, 'x) Validator list \<Rightarrow> Context \<Rightarrow> Info \<Rightarrow> ('v, 'x) world \<Rightarrow> error option \<times> ('v, 'x) world" where
  "runValidators [] c info w = (None, w)"
| "runValidators (validator # rest) c info w =
     (case validator c info w of
        (Some err, w1) \<Rightarrow> (Some (wrapError err CategoryValidation ErrMsgValidationFailedWrap), w1)
      | (None, w1) \<Rightarrow> runValidators rest c info w1)"

definition loadVersionInfo ::
  "'v env \<Rightarrow> ('v, 'x) Option list \<Rightarrow> ('v, 'x) world \<Rightarrow> (error + Info) \<times> ('v, 'x) world" where
  "loadVersionInfo env opts w =
     (let options = applyOptions opts
      in case manifestOrDefault env options of
           Inl err \<Rightarrow> (Inl err, w)
         | Inr manifest \<Rightarrow>
             (let (info, w1) = enrichedInfo env options manifest w;
                  c = (case ctx options of None \<Rightarrow> Background | Some c \<Rightarrow> c)
              in case runValidators (validators options) c info w1 of
                   (Some err, w2) \<Rightarrow> (Inl err, w2)
                 | (None, w2) \<Rightarrow> (Inr info, w2)))"

definition New ::
  "'v env \<Rightarrow> ('v, 'x) Option list \<Rightarrow> ('v, 'x) world \<Rightarrow> (error + Info) \<times> ('v, 'x) world" where
  "New env opts w = loadVersionInfo env opts w"

section \<open>The built-in validators\<close>

record ('v, 'x) genericVersionValidator =
  dimensionType :: string
  name :: string
  minVersion :: string
  getterFunc :: "('v, 'x) world \<Rightarrow> Info \<Rightarrow> string \<Rightarrow> string \<times> bool"
  errNotFoundFmt :: string
  errInvalidFmt :: string
  errTooOldFmt :: string

text \<open>The \<^verbatim>\<open>switch\<close> that picks the hint; the variable starts as the empty string.\<close>

definition notFoundHint :: "string \<Rightarrow> string" where
  "notFoundHint dimension =
     (if dimension = ''schema'' then ErrHintSchemaNotFound
      else if dimension = ''API'' then ErrHintAPINotFound
      else if dimension = ''component'' then ErrHintComponentNotFound
      else [])"

definition Validate :: "('v, 'x) genericVersionValidator \<Rightarrow> ('v, 'x) Validator" where
  "Validate v c info w =
     (case getterFunc v w info (name v) of
        (actual, ok) \<Rightarrow>
          (if \<not> ok
           then (Some (Errorf (errNotFoundFmt v @ HintSuffix)
                         [Str (name v), Str (notFoundHint (dimensionType v))]), w)
           else (case Parse actual of
                   Inl err \<Rightarrow> (Some (Errorf (errInvalidFmt v) [Str actual, Str (name v), Err err]), w)
                 | Inr actualVer \<Rightarrow>
                     (case Parse (minVersion v) of
                        Inl err \<Rightarrow>
                          (Some (Errorf ErrFmtInvalidMinVersion [Str (minVersion v), Err err]), w)
                      | Inr minVer \<Rightarrow>
                          (if LessThan actualVer minVer
                           then (Some (Errorf (errTooOldFmt v @ HintSuffix)
                                         [Str (name v), Str actual, Str (minVersion v),
                                          Str ErrHintVersionTooOld]), w)
                           else (None, w))))))"

definition NewSchemaValidator :: "string \<Rightarrow> string \<Rightarrow> ('v, 'x) genericVersionValidator" where
  "NewSchemaValidator schemaName minVer =
     \<lparr>dimensionType = ''schema'', name = schemaName, minVersion = minVer,
      getterFunc = GetSchemaVersion, errNotFoundFmt = ErrFmtSchemaNotFound,
      errInvalidFmt = ErrFmtInvalidSchemaVersion, errTooOldFmt = ErrFmtSchemaTooOld\<rparr>"



text \<open>\<^verbatim>\<open>ValidatorFunc\<close>: a function used as a validator; \<^verbatim>\<open>Validate\<close> calls it.\<close>

definition ValidatorFunc :: "('v, 'x) Validator \<Rightarrow> ('v, 'x) Validator" where
  "ValidatorFunc f = (\<lambda>c info w. f c info w)"

section \<open>The singleton\<close>

text \<open>
  The three package variables.  \<open>instanceValue\<close> is the \<^verbatim>\<open>atomic.Value\<close> of the
  variable \<^verbatim>\<open>instance\<close>: nothing stored
  yet (\<open>None\<close>), the nil pointer that \<^verbatim>\<open>Reset\<close> stores (\<open>Some None\<close>), or an Info.
  \<open>initOnce\<close> is the flag of the \<^verbatim>\<open>sync.Once\<close>: \<^verbatim>\<open>Do(f)\<close> runs \<open>f\<close> and sets the flag
  when it is clear, and does nothing when it is set.  Calls are taken one at a time.
\<close>

record singleton =
  instanceValue :: "Info option option"
  initOnce :: bool
  initError :: "error option"

definition initialSingleton :: singleton where
  "initialSingleton = \<lparr>instanceValue = None, initOnce = False, initError = None\<rparr>"

definition onceDo ::
  "(singleton \<times> ('v, 'x) world \<Rightarrow> singleton \<times> ('v, 'x) world) \<Rightarrow>
   singleton \<times> ('v, 'x) world \<Rightarrow> singleton \<times> ('v, 'x) world" where
  "onceDo f st =
     (if initOnce (fst st) then st
      else (let (s1, w1) = f st in (s1\<lparr>initOnce := True\<rparr>, w1)))"

text \<open>The function literal that both entry points hand to \<^verbatim>\<open>initOnce.Do\<close>.\<close>

definition initBody ::
  "'v env \<Rightarrow> ('v, 'x) Option list \<Rightarrow> singleton \<times> ('v, 'x) world \<Rightarrow> singleton \<times> ('v, 'x) world" where
  "initBody env opts st =
     (case loadVersionInfo env opts (snd st) of
        (Inl err, w1) \<Rightarrow> ((fst st)\<lparr>initError := Some err\<rparr>, w1)
      | (Inr info, w1) \<Rightarrow> ((fst st)\<lparr>initError := None, instanceValue := Some (Some info)\<rparr>, w1))"

text \<open>The error that \<^verbatim>\<open>Initialize\<close> makes when \<^verbatim>\<open>Do\<close> did not run its function.\<close>

definition ErrInitializeMultiple :: error where
  "ErrInitializeMultiple =
     Errorf ''%s\<newline>Hint: %s'' [Str ErrMsgInitializeMultiple, Str ErrHintInitializeMultiple]"

definition Initialize ::
  "'v env \<Rightarrow> ('v, 'x) Option list \<Rightarrow> singleton \<times> ('v, 'x) world \<Rightarrow>
   error option \<times> singleton \<times> ('v, 'x) world" where
  "Initialize env opts st =
     (let didRun = \<not> initOnce (fst st);
          st1 = onceDo (initBody env opts) st
      in if \<not> didRun
         then (Some ErrInitializeMultiple, st1)
         else (initError (fst st1), st1))"

definition Get ::
  "'v env \<Rightarrow> singleton \<times> ('v, 'x) world \<Rightarrow> (error + Info) \<times> singleton \<times> ('v, 'x) world" where
  "Get env st =
     (case instanceValue (fst st) of
        Some (Some info) \<Rightarrow> (Inr info, st)
      | _ \<Rightarrow>
          (let st1 = onceDo (initBody env [WithGitInfo, WithBuildInfo]) st
           in case initError (fst st1) of
                Some err \<Rightarrow> (Inl err, st1)
              | None \<Rightarrow>
                  (case instanceValue (fst st1) of
                     Some (Some info) \<Rightarrow> (Inr info, st1)
                   | _ \<Rightarrow> (Inl ErrNotInitialized, st1))))"

definition IsInitialized :: "singleton \<Rightarrow> bool" where
  "IsInitialized s = (case instanceValue s of Some (Some info) \<Rightarrow> True | _ \<Rightarrow> False)"

text \<open>\<^verbatim>\<open>Reset\<close> panics outside a test run (\<open>None\<close>).\<close>

definition Reset :: "'v env \<Rightarrow> singleton \<Rightarrow> singleton option" where
  "Reset env s =
     (if \<not> testingTesting env then None
      else Some (s\<lparr>instanceValue := Some None, initOnce := False, initError := None\<rparr>))"

text \<open>
  The singleton as a state machine: a caller makes one of three calls, each with the
  environment it finds at that moment, and gets a reply; a run is a sequence of calls.
  (\<^verbatim>\<open>Reset\<close>, which only a test run may call, is not among them.)
\<close>

datatype ('v, 'x) call =
    CallInitialize "'v env" "('v, 'x) Option list"
  | CallGet "'v env"
  | CallIsInitialized

datatype reply =
    InitializeReturned "error option"
  | GetReturned "error + Info"
  | IsInitializedReturned bool

fun callStep ::
  "('v, 'x) call \<Rightarrow> singleton \<times> ('v, 'x) world \<Rightarrow> reply \<times> singleton \<times> ('v, 'x) world" where
  "callStep (CallInitialize env opts) st =
     (case Initialize env opts st of (r, st1) \<Rightarrow> (InitializeReturned r, st1))"
| "callStep (CallGet env) st = (case Get env st of (r, st1) \<Rightarrow> (GetReturned r, st1))"
| "callStep CallIsInitialized st = (IsInitializedReturned (IsInitialized (fst st)), st)"

fun runCalls ::
  "('v, 'x) call list \<Rightarrow> singleton \<times> ('v, 'x) world \<Rightarrow>
   reply list \<times> singleton \<times> ('v, 'x) world" where
  "runCalls [] st = ([], st)"
| "runCalls (c # cs) st =
     (case callStep c st of
        (r, st1) \<Rightarrow> (case runCalls cs st1 of (rs, st2) \<Rightarrow> (r # rs, st2)))"

text \<open>What each call is answered once an initialization has failed with \<open>err\<close>.\<close>

fun replyAfterFailure :: "error \<Rightarrow> ('v, 'x) call \<Rightarrow> reply" where
  "replyAfterFailure err (CallInitialize env opts) = InitializeReturned (Some ErrInitializeMultiple)"
| "replyAfterFailure err (CallGet env) = GetReturned (Inl err)"
| "replyAfterFailure err CallIsInitialized = IsInitializedReturned False"

text \<open>What each call is answered once \<open>info\<close> has been published.\<close>

fun replyWhenReady :: "Info \<Rightarrow> ('v, 'x) call \<Rightarrow> reply" where
  "replyWhenReady info (CallInitialize env opts) = InitializeReturned (Some ErrInitializeMultiple)"
| "replyWhenReady info (CallGet env) = GetReturned (Inr info)"
| "replyWhenReady info CallIsInitialized = IsInitializedReturned True"

section \<open>Fixtures\<close>

text \<open>
  A concrete environment, world and validators on which the definitions can be run: the
  manifest of the end-to-end scenario of the specification as embedded bytes, another
  manifest in the file \<^verbatim>\<open>versions.yaml\<close>, no other file, a decoder that knows the two
  texts, no linker-set variables, no build info and no git binary.  The world's \<open>ext\<close> is
  the list of the numbers of the recording validators called so far.
\<close>

definition svcYaml :: string where
  "svcYaml = ''manifest_version: \"1.0\"\<newline>project:\<newline>  name: svc\<newline>  version: 1.2.3\<newline>schemas:\<newline>  db: \"47\"\<newline>''"

definition svcManifest :: "unit Manifest" where
  "svcManifest =
     \<lparr>ManifestVersion = ''1.0'',
      Manifest.Project = \<lparr>ProjectManifest.Name = ''svc'', ProjectManifest.Version = ''1.2.3''\<rparr>,
      Schemas = Some (DAList.update ''db'' ''47'' DAList.empty),
      APIs = None, Components = None, Custom = None\<rparr>"

definition fileYaml :: string where
  "fileYaml = ''project:\<newline>  name: from-file\<newline>  version: 0.9.0\<newline>''"

definition fileManifest :: "unit Manifest" where
  "fileManifest =
     \<lparr>ManifestVersion = [],
      Manifest.Project = \<lparr>ProjectManifest.Name = ''from-file'', ProjectManifest.Version = ''0.9.0''\<rparr>,
      Schemas = None, APIs = None, Components = None, Custom = None\<rparr>"

definition fixtureEnv :: "unit env" where
  "fixtureEnv =
     \<lparr>readFile = (\<lambda>path. if path = ''versions.yaml'' then Inr fileYaml
                          else Inl (OSError (''open '' @ path @ '': no such file or directory'') True)),
      yamlUnmarshal = (\<lambda>data. if data = svcYaml then Inr svcManifest
                               else if data = fileYaml then Inr fileManifest
                               else Inl (YamlError ''yaml: unmarshal errors'')),
      GitCommit = DefaultGitCommit, GitTag = [], GitTreeState = DefaultGitTreeState,
      BuildTime = DefaultBuildTime, BuildUser = DefaultBuildUser,
      runtimeVersion = ''go1.24.6'', runtimeGOOS = ''linux'', readBuildInfo = None,
      lookPath = (\<lambda>file. None), commandOutput = (\<lambda>binary args. None),
      TrimSpace = (\<lambda>s. s), timeNow = 1, testingTesting = True\<rparr>"

definition emptyWorld :: "(unit, nat list) world" where
  "emptyWorld = \<lparr>strMaps = [], anyMaps = [], ext = []\<rparr>"

definition recordingValidator :: "nat \<Rightarrow> error option \<Rightarrow> (unit, nat list) Validator" where
  "recordingValidator n result = (\<lambda>c info w. (result, w\<lparr>ext := ext w @ [n]\<rparr>))"

text \<open>
  The snapshot and the world that loading the embedded manifest into the empty world
  gives: one table, holding the schema entry.
\<close>

definition svcWorld :: "(unit, nat list) world" where
  "svcWorld = \<lparr>strMaps = [DAList.update ''db'' ''47'' DAList.empty], anyMaps = [], ext = []\<rparr>"

definition svcInfo :: Info where
  "svcInfo =
     \<lparr>Info.Project = \<lparr>ProjectVersion.Name = ''svc'', ProjectVersion.Version = ''1.2.3''\<rparr>,
      Git = \<lparr>Commit = ''dev'', Tag = [], TreeState = ''clean'', CommitTime = []\<rparr>,
      Info.Build = \<lparr>Time = ''unknown'', User = [], GoVersion = ''go1.24.6''\<rparr>,
      schemas = Some 0, apis = None, components = None, custom = None, loadedAt = 1\<rparr>"

section \<open>Properties of package semver\<close>

subsection \<open>Digits, Atoi and the splitting functions\<close>

lemma digitChar_cases:
  "d < 10 \<Longrightarrow> digitChar d \<in> set ''0123456789''"
  unfolding digitChar_def by (rule nth_mem) simp

lemma isDigit_digitChar: "d < 10 \<Longrightarrow> isDigit (digitChar d)"
  using digitChar_cases[of d] by (auto simp: isDigit_def)

lemma digitVal_digitChar: "d < 10 \<Longrightarrow> digitVal (digitChar d) = d"
proof -
  assume "d < 10"
  then have "d \<in> {0,1,2,3,4,5,6,7,8,9}" by auto
  then show ?thesis by (auto simp: digitVal_def digitChar_def)
qed

lemma natDigits_set: "set (natDigits n) \<subseteq> set ''0123456789''"
proof (induction n rule: natDigits.induct)
  case (1 n)
  show ?case
  proof (cases "n < 10")
    case True
    then show ?thesis using digitChar_cases[of n] by (subst natDigits.simps) simp
  next
    case False
    then show ?thesis using 1 digitChar_cases[of "n mod 10"]
      by (subst natDigits.simps) simp
  qed
qed

lemma natDigits_nonempty: "natDigits n \<noteq> []"
  by (subst natDigits.simps) simp

lemma atoiDigits_append:
  "atoiDigits acc (xs @ ys) = (case atoiDigits acc xs of None \<Rightarrow> None | Some a \<Rightarrow> atoiDigits a ys)"
  by (induction xs arbitrary: acc) auto

lemma atoiDigits_natDigits: "atoiDigits 0 (natDigits n) = Some n"
proof (induction n rule: natDigits.induct)
  case (1 n)
  show ?case
  proof (cases "n < 10")
    case True
    then show ?thesis
      by (subst natDigits.simps) (simp add: isDigit_digitChar digitVal_digitChar)
  next
    case False
    then have "atoiDigits 0 (natDigits (n div 10)) = Some (n div 10)" using 1 by simp
    with False show ?thesis
      by (subst natDigits.simps)
         (simp add: atoiDigits_append isDigit_digitChar digitVal_digitChar)
  qed
qed

lemma Atoi_fmtInt: "0 \<le> i \<Longrightarrow> i \<le> maxInt \<Longrightarrow> Atoi (fmtInt i) = Some i"
proof -
  assume a: "0 \<le> i" "i \<le> maxInt"
  obtain c cs where ds: "natDigits (nat i) = c # cs"
    using natDigits_nonempty[of "nat i"] by (cases "natDigits (nat i)") auto
  have "c \<in> set ''0123456789''" using natDigits_set[of "nat i"] ds by auto
  then have c: "c \<noteq> CHR ''-''" "c \<noteq> CHR ''+''" by auto
  have "atoiDigits 0 (c # cs) = Some (nat i)" using atoiDigits_natDigits[of "nat i"] ds by simp
  then show ?thesis using a c ds
    by (simp add: Atoi_def fmtInt_def Let_def del: atoiDigits.simps)
qed

lemma SplitN_2_absent: "sep \<notin> set s \<Longrightarrow> SplitN s sep 2 = [s]"
  by (induction s) auto

lemma SplitN_1: "SplitN s sep (Suc 0) = [s]"
  by (induction s) auto

lemma SplitN_2_first: "sep \<notin> set a \<Longrightarrow> SplitN (a @ sep # b) sep 2 = [a, b]"
  by (induction a) (auto simp: SplitN_1)

lemma Split_absent: "sep \<notin> set s \<Longrightarrow> Split s sep = [s]"
  by (induction s) auto

lemma Split_first: "sep \<notin> set a \<Longrightarrow> Split (a @ sep # b) sep = a # Split b sep"
  by (induction a) auto


lemma fmtInt_nonneg_set: "0 \<le> i \<Longrightarrow> set (fmtInt i) \<subseteq> set ''0123456789''"
  using natDigits_set[of "nat i"] by (simp add: fmtInt_def)

lemma fmtInt_avoids: "0 \<le> i \<Longrightarrow> c \<notin> set ''0123456789'' \<Longrightarrow> c \<notin> set (fmtInt i)"
  using fmtInt_nonneg_set[of i] by blast

lemma fmtInt_nonempty: "fmtInt i \<noteq> []"
  by (simp add: fmtInt_def natDigits_nonempty)

lemma TrimPrefix_v_digit:
  assumes "s = c # cs" and "c \<in> set ''0123456789''"
  shows "TrimPrefix s ''v'' = s"
  using assms by (auto simp: TrimPrefix_def)

lemma parseCore_three:
  assumes "0 \<le> M" "M \<le> maxInt" "0 \<le> m" "m \<le> maxInt" "0 \<le> p" "p \<le> maxInt"
  shows "parseCore s pre build [fmtInt M, fmtInt m, fmtInt p] =
         Inr \<lparr>Major = M, Minor = m, Patch = p, Prerelease = pre, Version.Build = build\<rparr>"
  using assms by (simp add: parseCore_def Atoi_fmtInt)

lemma Split_core:
  assumes "0 \<le> M" "0 \<le> m" "0 \<le> p"
  shows "Split (fmtInt M @ ''.'' @ fmtInt m @ ''.'' @ fmtInt p) CHR ''.'' = [fmtInt M, fmtInt m, fmtInt p]"
proof -
  have n: "CHR ''.'' \<notin> set (fmtInt M)" "CHR ''.'' \<notin> set (fmtInt m)" "CHR ''.'' \<notin> set (fmtInt p)"
    using assms by (simp_all add: fmtInt_avoids)
  have "Split (fmtInt M @ CHR ''.'' # (fmtInt m @ CHR ''.'' # fmtInt p)) CHR ''.''
        = fmtInt M # Split (fmtInt m @ CHR ''.'' # fmtInt p) CHR ''.''"
    using n(1) by (rule Split_first)
  also have "Split (fmtInt m @ CHR ''.'' # fmtInt p) CHR ''.'' = fmtInt m # Split (fmtInt p) CHR ''.''"
    using n(2) by (rule Split_first)
  also have "Split (fmtInt p) CHR ''.'' = [fmtInt p]"
    using n(3) by (rule Split_absent)
  finally show ?thesis by simp
qed

lemma Parse_canonical:
  assumes r: "0 \<le> M" "M \<le> maxInt" "0 \<le> m" "m \<le> maxInt" "0 \<le> p" "p \<le> maxInt"
    and pre: "CHR ''+'' \<notin> set pre"
  shows "Parse (fmtInt M @ ''.'' @ fmtInt m @ ''.'' @ fmtInt p
                @ (if pre \<noteq> [] then ''-'' @ pre else [])
                @ (if build \<noteq> [] then ''+'' @ build else []))
         = Inr \<lparr>Major = M, Minor = m, Patch = p, Prerelease = pre, Version.Build = build\<rparr>"
proof -
  define core where "core = fmtInt M @ ''.'' @ fmtInt m @ ''.'' @ fmtInt p"
  define vp where "vp = core @ (if pre \<noteq> [] then ''-'' @ pre else [])"
  define s where "s = vp @ (if build \<noteq> [] then ''+'' @ build else [])"
  obtain c cs where M: "fmtInt M = c # cs"
    using fmtInt_nonempty[of M] by (cases "fmtInt M") auto
  have c: "c \<in> set ''0123456789''" using fmtInt_nonneg_set[OF r(1)] M by auto
  have s_cons: "s = c # (cs @ ''.'' @ fmtInt m @ ''.'' @ fmtInt p
                @ (if pre \<noteq> [] then ''-'' @ pre else [])
                @ (if build \<noteq> [] then ''+'' @ build else []))"
    by (simp add: s_def vp_def core_def M)
  have trim: "TrimPrefix s ''v'' = s" using s_cons c by (rule TrimPrefix_v_digit)
  have ne: "s \<noteq> []" using s_cons by simp
  have plus_core: "CHR ''+'' \<notin> set core" and minus_core: "CHR ''-'' \<notin> set core"
    using r(1,3,5) by (simp_all add: core_def fmtInt_avoids)
  have plus_vp: "CHR ''+'' \<notin> set vp" using plus_core pre by (simp add: vp_def)
  have split1: "SplitN s CHR ''+'' 2 = (if build \<noteq> [] then [vp, build] else [vp])"
    using plus_vp by (simp add: s_def SplitN_2_first SplitN_2_absent)
  have split2: "SplitN vp CHR ''-'' 2 = (if pre \<noteq> [] then [core, pre] else [core])"
    using minus_core by (simp add: vp_def SplitN_2_first SplitN_2_absent)
  have split3: "Split core CHR ''.'' = [fmtInt M, fmtInt m, fmtInt p]"
    unfolding core_def using r(1,3,5) by (rule Split_core)
  have "Parse s = parseCore s pre build [fmtInt M, fmtInt m, fmtInt p]"
    by (simp add: Parse_def trim ne split1 split2 split3 Let_def)
  also have "\<dots> = Inr \<lparr>Major = M, Minor = m, Patch = p, Prerelease = pre, Version.Build = build\<rparr>"
    using r by (rule parseCore_three)
  finally show ?thesis by (simp add: s_def vp_def core_def)
qed

lemma String_canonical:
  "String v = fmtInt (Major v) @ ''.'' @ fmtInt (Minor v) @ ''.'' @ fmtInt (Patch v)
                @ (if Prerelease v \<noteq> [] then ''-'' @ Prerelease v else [])
                @ (if Version.Build v \<noteq> [] then ''+'' @ Version.Build v else [])"
  by (simp add: String_def Let_def)


lemma Parse_strips_v:
  assumes "TrimPrefix s ''v'' = s"
  shows "Parse (''v'' @ s) = Parse s"
proof -
  have "TrimPrefix (''v'' @ s) ''v'' = s" by (simp add: TrimPrefix_def)
  then show ?thesis using assms by (simp add: Parse_def)
qed

lemma String_starts_with_digit:
  assumes "0 \<le> Major v"
  shows "TrimPrefix (String v) ''v'' = String v"
proof -
  obtain c cs where M: "fmtInt (Major v) = c # cs"
    using fmtInt_nonempty[of "Major v"] by (cases "fmtInt (Major v)") auto
  have c: "c \<in> set ''0123456789''" using fmtInt_nonneg_set[OF assms] M by auto
  have "String v = c # (cs @ ''.'' @ fmtInt (Minor v) @ ''.'' @ fmtInt (Patch v)
                @ (if Prerelease v \<noteq> [] then ''-'' @ Prerelease v else [])
                @ (if Version.Build v \<noteq> [] then ''+'' @ Version.Build v else []))"
    by (simp add: String_canonical M)
  then show ?thesis using c by (rule TrimPrefix_v_digit)
qed

subsection \<open>The string order\<close>

lemma lexLess_iff_less: "lexLess x y \<longleftrightarrow> x < y"
  by (induction x y rule: lexLess.induct) (auto simp: less_char_def)

subsection \<open>Round trip of Parse and String\<close>

text \<open>
  Claim C5, as the code has it.  \<open>String\<close> always prints the three numbers, so the
  strings that come back unchanged are those with all three numbers present: for every
  version \<open>v\<close> whose numbers lie in \<open>0 .. maxInt\<close> and whose pre-release tag has no
  \<open>+\<close>, the text \<open>s = String v\<close> (that is \<open>MAJOR.MINOR.PATCH\<close>, then \<open>-PRERELEASE\<close> and
  \<open>+BUILD\<close> when these are not empty) parses to \<open>v\<close>, and parsing \<open>s\<close> and printing the
  result gives \<open>s\<close> again; the same holds for \<open>s\<close> with a leading \<open>v\<close>, which is not
  printed back.
\<close>

theorem Parse_String_roundtrip:
  assumes "0 \<le> Major v" "Major v \<le> maxInt" "0 \<le> Minor v" "Minor v \<le> maxInt"
    "0 \<le> Patch v" "Patch v \<le> maxInt" "CHR ''+'' \<notin> set (Prerelease v)"
    and "s = String v"
  shows "Parse s = Inr v \<and> map_sum id String (Parse s) = Inr s
         \<and> map_sum id String (Parse (''v'' @ s)) = Inr s"
proof -
  have "Parse (String v) = Inr \<lparr>Major = Major v, Minor = Minor v, Patch = Patch v,
           Prerelease = Prerelease v, Version.Build = Version.Build v\<rparr>"
    unfolding String_canonical using assms(1-7) by (rule Parse_canonical)
  moreover have "\<lparr>Major = Major v, Minor = Minor v, Patch = Patch v,
           Prerelease = Prerelease v, Version.Build = Version.Build v\<rparr> = v" by simp
  ultimately have p: "Parse s = Inr v" using assms(8) by simp
  have "Parse (''v'' @ s) = Parse s"
    unfolding assms(8) using assms(1) by (intro Parse_strips_v String_starts_with_digit)
  then show ?thesis using p assms(8) by simp
qed

theorem Parse_String_roundtrip_witness:
  "(0::int) \<le> 1 \<and> (1::int) \<le> maxInt \<and> (0::int) \<le> 2 \<and> (2::int) \<le> maxInt
   \<and> (0::int) \<le> 3 \<and> (3::int) \<le> maxInt \<and> CHR ''+'' \<notin> set ''beta.1''
   \<and> ''1.2.3-beta.1+build.123'' =
       String \<lparr>Major = 1, Minor = 2, Patch = 3, Prerelease = ''beta.1'', Version.Build = ''build.123''\<rparr>
   \<and> Parse ''1.2.3-beta.1+build.123'' =
       Inr \<lparr>Major = 1, Minor = 2, Patch = 3, Prerelease = ''beta.1'', Version.Build = ''build.123''\<rparr>
   \<and> map_sum id String (Parse ''1.2.3-beta.1+build.123'') = Inr ''1.2.3-beta.1+build.123''
   \<and> map_sum id String (Parse ''v1.2.3-beta.1+build.123'') = Inr ''1.2.3-beta.1+build.123''"
proof -
  let ?v = "\<lparr>Major = 1, Minor = 2, Patch = 3, Prerelease = ''beta.1'', Version.Build = ''build.123''\<rparr>"
  have s: "''1.2.3-beta.1+build.123'' = String ?v"
    by (simp add: String_def fmtInt_def natDigits.simps digitChar_def)
  have m: "(1::int) \<le> maxInt" "(2::int) \<le> maxInt" "(3::int) \<le> maxInt"
    by (simp_all add: maxInt_def)
  have "Parse ''1.2.3-beta.1+build.123'' = Inr ?v
        \<and> map_sum id String (Parse ''1.2.3-beta.1+build.123'') = Inr ''1.2.3-beta.1+build.123''
        \<and> map_sum id String (Parse (''v'' @ ''1.2.3-beta.1+build.123'')) = Inr ''1.2.3-beta.1+build.123''"
    using m by (intro Parse_String_roundtrip [of ?v]) (simp_all add: s [symmetric])
  then show ?thesis using s m by simp
qed

text \<open>
  The claim as the specification words it fails on the two short forms of its own list:
  missing numbers are read as 0 and printed back.
\<close>

theorem Parse_String_short_form_counterexample:
  "map_sum id String (Parse ''2'') = Inr ''2.0.0''
   \<and> map_sum id String (Parse ''2'') \<noteq> Inr ''2''
   \<and> map_sum id String (Parse ''2.1'') = Inr ''2.1.0''
   \<and> map_sum id String (Parse ''2.1'') \<noteq> Inr ''2.1''"
  by (simp add: Parse_def parseCore_def TrimPrefix_def Atoi_def String_def fmtInt_def
        natDigits.simps isDigit_def digitVal_def digitChar_def maxInt_def Let_def)

subsection \<open>Compare\<close>

text \<open>
  Claim C6.  \<open>Compare\<close> returns -1, 0 or 1 and is the order of the specification
  (\<open>compare_spec\<close>: major, then minor, then patch as numbers; with these equal a release
  is above a pre-release, and two pre-release tags compare as strings, byte by byte);
  changing the build metadata of either side never changes the result; and the five
  predicates are the five sign tests of \<open>Compare\<close>.
\<close>

theorem Compare_order:
  "Compare a b \<in> {- 1, 0, 1}
   \<and> Compare a b = compare_spec a b
   \<and> Compare (a\<lparr>Version.Build := x\<rparr>) (b\<lparr>Version.Build := y\<rparr>) = Compare a b
   \<and> LessThan a b = (Compare a b = - 1)
   \<and> GreaterThan a b = (Compare a b = 1)
   \<and> Equal a b = (Compare a b = 0)
   \<and> GreaterThanOrEqual a b = (Compare a b = 0 \<or> Compare a b = 1)
   \<and> LessThanOrEqual a b = (Compare a b = - 1 \<or> Compare a b = 0)"
proof -
  have range: "Compare a b \<in> {- 1, 0, 1}"
    by (simp add: Compare_def)
  have spec: "Compare a b = compare_spec a b"
    by (auto simp: Compare_def compare_spec_def numCompare_def lexLess_iff_less)
  have build: "Compare (a\<lparr>Version.Build := x\<rparr>) (b\<lparr>Version.Build := y\<rparr>) = Compare a b"
    by (simp add: Compare_def)
  from range have preds:
    "LessThan a b = (Compare a b = - 1)" "GreaterThan a b = (Compare a b = 1)"
    "Equal a b = (Compare a b = 0)"
    "GreaterThanOrEqual a b = (Compare a b = 0 \<or> Compare a b = 1)"
    "LessThanOrEqual a b = (Compare a b = - 1 \<or> Compare a b = 0)"
    by (auto simp: LessThan_def GreaterThan_def Equal_def GreaterThanOrEqual_def
          LessThanOrEqual_def)
  show ?thesis using range spec build preds by blast
qed

theorem Compare_order_witness:
  "Compare \<lparr>Major = 1, Minor = 2, Patch = 3, Prerelease = ''alpha'', Version.Build = ''b1''\<rparr>
           \<lparr>Major = 1, Minor = 2, Patch = 3, Prerelease = ''beta'', Version.Build = ''b2''\<rparr> = - 1
   \<and> compare_spec \<lparr>Major = 1, Minor = 2, Patch = 3, Prerelease = ''alpha'', Version.Build = ''b1''\<rparr>
           \<lparr>Major = 1, Minor = 2, Patch = 3, Prerelease = ''beta'', Version.Build = ''b2''\<rparr> = - 1
   \<and> LessThan \<lparr>Major = 1, Minor = 2, Patch = 3, Prerelease = ''alpha'', Version.Build = ''b1''\<rparr>
           \<lparr>Major = 1, Minor = 2, Patch = 3, Prerelease = ''beta'', Version.Build = ''b2''\<rparr>
   \<and> Compare \<lparr>Major = 1, Minor = 2, Patch = 3, Prerelease = [], Version.Build = []\<rparr>
           \<lparr>Major = 1, Minor = 2, Patch = 3, Prerelease = ''alpha'', Version.Build = []\<rparr> = 1"
  using Compare_order [of "\<lparr>Major = 1, Minor = 2, Patch = 3, Prerelease = ''alpha'', Version.Build = ''b1''\<rparr>"
          "\<lparr>Major = 1, Minor = 2, Patch = 3, Prerelease = ''beta'', Version.Build = ''b2''\<rparr>" "[]" "[]"]
  by (simp add: compare_spec_def numCompare_def Compare_def)

subsection \<open>The examples of the specification\<close>

lemmas semver_eval = Parse_def parseCore_def TrimPrefix_def Atoi_def String_def fmtInt_def
  natDigits.simps isDigit_def digitVal_def digitChar_def maxInt_def Let_def

lemma roundtrip_examples:
  "map_sum id String (Parse ''1.2.3'') = Inr ''1.2.3''"
  "map_sum id String (Parse ''1.2.3-alpha'') = Inr ''1.2.3-alpha''"
  "map_sum id String (Parse ''1.2.3+build'') = Inr ''1.2.3+build''"
  "map_sum id String (Parse ''1.2.3-beta.1+build.123'') = Inr ''1.2.3-beta.1+build.123''"
  "map_sum id String (Parse ''v1.2.3'') = Inr ''1.2.3''"
  by (simp_all add: semver_eval)

lemma parse_errors_examples:
  "Parse [] = Inl (Errorf ''empty version string'' [])"
  "Parse ''1.2.3.4'' = Inl (Errorf ''invalid version format: %s'' [Str ''1.2.3.4''])"
  "Parse ''abc.2.3'' = Inl (Errorf ''invalid major version: %s'' [Str ''abc''])"
  "Parse ''1.abc.3'' = Inl (Errorf ''invalid minor version: %s'' [Str ''abc''])"
  "Parse ''1.2.abc'' = Inl (Errorf ''invalid patch version: %s'' [Str ''abc''])"
  by (simp_all add: semver_eval)

lemma ordering_examples:
  "(case (Parse ''1.2.3'', Parse ''1.3.0'') of (Inr a, Inr b) \<Rightarrow> LessThan a b | _ \<Rightarrow> False)"
  "(case (Parse ''1.3.0'', Parse ''2.0.0'') of (Inr a, Inr b) \<Rightarrow> LessThan a b | _ \<Rightarrow> False)"
  "(case (Parse ''1.2.3'', Parse ''1.2.3-alpha'') of (Inr a, Inr b) \<Rightarrow> GreaterThan a b | _ \<Rightarrow> False)"
  "(case (Parse ''1.2.3-alpha'', Parse ''1.2.3-beta'') of (Inr a, Inr b) \<Rightarrow> LessThan a b | _ \<Rightarrow> False)"
  "(case (Parse ''1.2.3+one'', Parse ''1.2.3+two'') of (Inr a, Inr b) \<Rightarrow> Equal a b | _ \<Rightarrow> False)"
  by (simp_all add: semver_eval LessThan_def GreaterThan_def Equal_def Compare_def)

section \<open>Properties of the loader\<close>

subsection \<open>What enrichment leaves alone\<close>

lemma applySettings_keeps:
  "Info.Project (applySettings settings info) = Info.Project info
   \<and> schemas (applySettings settings info) = schemas info
   \<and> apis (applySettings settings info) = apis info
   \<and> components (applySettings settings info) = components info
   \<and> custom (applySettings settings info) = custom info"
  by (induction settings info rule: applySettings.induct) simp_all

lemma enrichWithGitInfo_keeps:
  "Info.Project (enrichWithGitInfo env info) = Info.Project info
   \<and> schemas (enrichWithGitInfo env info) = schemas info
   \<and> apis (enrichWithGitInfo env info) = apis info
   \<and> components (enrichWithGitInfo env info) = components info
   \<and> custom (enrichWithGitInfo env info) = custom info"
  by (simp add: enrichWithGitInfo_def applyGitCommandFallback_def applyBuildInfoGitData_def
        applyLdflagsGitInfo_def applySettings_keeps Let_def split: option.split)

lemma enrichWithBuildInfo_keeps:
  "Info.Project (enrichWithBuildInfo env info) = Info.Project info
   \<and> schemas (enrichWithBuildInfo env info) = schemas info
   \<and> apis (enrichWithBuildInfo env info) = apis info
   \<and> components (enrichWithBuildInfo env info) = components info
   \<and> custom (enrichWithBuildInfo env info) = custom info"
  by (simp add: enrichWithBuildInfo_def Let_def)

lemma enrichedInfo_keeps:
  assumes "enrichedInfo env options m w = (i, w1)" and "manifestToInfo env m w = (i0, w0)"
  shows "w1 = w0 \<and> Info.Project i = Info.Project i0 \<and> schemas i = schemas i0
      \<and> apis i = apis i0 \<and> components i = components i0 \<and> custom i = custom i0"
  using assms
  by (auto simp: enrichedInfo_def Let_def enrichWithGitInfo_keeps enrichWithBuildInfo_keeps
        split: prod.splits)

lemma strMapFrom_None: "strMapFrom None w = (None, w)"
  by (simp add: strMapFrom_def)

lemma strMapFrom_Some: "strMapFrom (Some es) w = (r, w1) \<Longrightarrow> r = Some (length (strMaps w))"
  by (auto simp: strMapFrom_def makeStrMap_def Let_def)

lemma anyMapFrom_Some: "anyMapFrom (Some es) w = (r, w1) \<Longrightarrow> r = Some (length (anyMaps w))"
  by (auto simp: anyMapFrom_def makeAnyMap_def Let_def)

lemma manifestToInfo_fields:
  assumes "manifestToInfo env m w = (i, w1)"
  shows "ProjectVersion.Name (Info.Project i) = ProjectManifest.Name (Manifest.Project m)"
    "ProjectVersion.Version (Info.Project i) = ProjectManifest.Version (Manifest.Project m)"
    "(schemas i = None) = (Schemas m = None)" "(apis i = None) = (APIs m = None)"
    "(components i = None) = (Components m = None)" "(custom i = None) = (Custom m = None)"
  using assms
  by (auto simp: manifestToInfo_def Let_def strMapFrom_def anyMapFrom_def makeStrMap_def makeAnyMap_def
      split: prod.splits option.splits)


lemma runValidators_append:
  "runValidators (pre @ rest) c info w =
     (case runValidators pre c info w of
        (Some err, w1) \<Rightarrow> (Some err, w1)
      | (None, w1) \<Rightarrow> runValidators rest c info w1)"
  by (induction pre arbitrary: w) (auto split: prod.splits option.splits)

lemmas fixture_defs = fixtureEnv_def emptyWorld_def svcManifest_def fileManifest_def
  svcYaml_def fileYaml_def recordingValidator_def

lemmas option_defs = applyOptions_def defaultLoadOptions_def WithManifestPath_def
  WithEmbedded_def WithGitInfo_def WithBuildInfo_def WithValidators_def WithStrictMode_def
  ManifestFilenameYAML_def

lemmas enrich_defs = enrichedInfo_def manifestToInfo_def strMapFrom_def anyMapFrom_def
  makeStrMap_def makeAnyMap_def enrichWithGitInfo_def enrichWithBuildInfo_def
  applyLdflagsGitInfo_def applyBuildInfoGitData_def applyGitCommandFallback_def
  getGitCommit_def getGitTag_def getGitBinary_def strAssign_def anyAssign_def
  DefaultGitCommit_def DefaultGitTreeState_def DefaultBuildTime_def DefaultBuildUser_def
  GitCmdName_def

subsection \<open>Source precedence\<close>



subsection \<open>A missing manifest, strict mode, and a broken manifest\<close>



subsection \<open>Sections that the manifest leaves out\<close>

text \<open>
  Claim C10.  Take the Info that \<open>manifestToInfo\<close> builds from a manifest, or the
  enriched one that the load returns.  For each dimension whose section is absent from
  the manifest the field is the nil map: the lookup getter answers the empty string and
  false for every name in every world, and the map getter returns nil and leaves the
  world as it is.  A section that is present, even with no entry, gives a map that is not
  nil, and the map getter then returns a map that is not nil.
\<close>

theorem absent_section_is_nil:
  assumes "manifestToInfo env m w = (i, w1) \<or> enrichedInfo env options m w = (i, w1)"
  shows
   "(Schemas m = None \<longrightarrow>
       schemas i = None \<and> GetSchemaVersion w' i key = ([], False) \<and> GetSchemas i w' = (None, w'))
    \<and> (APIs m = None \<longrightarrow>
       apis i = None \<and> GetAPIVersion w' i key = ([], False) \<and> GetAPIs i w' = (None, w'))
    \<and> (Components m = None \<longrightarrow>
       components i = None \<and> GetComponentVersion w' i key = ([], False)
       \<and> GetComponents i w' = (None, w'))
    \<and> (Custom m = None \<longrightarrow> custom i = None \<and> GetCustom i w' = (None, w'))
    \<and> (Schemas m \<noteq> None \<longrightarrow> schemas i \<noteq> None \<and> fst (GetSchemas i w') \<noteq> None)
    \<and> (APIs m \<noteq> None \<longrightarrow> apis i \<noteq> None \<and> fst (GetAPIs i w') \<noteq> None)
    \<and> (Components m \<noteq> None \<longrightarrow> components i \<noteq> None \<and> fst (GetComponents i w') \<noteq> None)
    \<and> (Custom m \<noteq> None \<longrightarrow> custom i \<noteq> None \<and> fst (GetCustom i w') \<noteq> None)"
proof -
  obtain i0 w0 where c0: "manifestToInfo env m w = (i0, w0)"
    by (cases "manifestToInfo env m w") auto
  have same: "schemas i = schemas i0 \<and> apis i = apis i0 \<and> components i = components i0
              \<and> custom i = custom i0"
    using assms c0 enrichedInfo_keeps [of env options m w i w1 i0 w0] by auto
  note f = manifestToInfo_fields(3-6) [OF c0]
  have nil: "(Schemas m = None) = (schemas i = None)" "(APIs m = None) = (apis i = None)"
      "(Components m = None) = (components i = None)" "(Custom m = None) = (custom i = None)"
    using same f by simp_all
  show ?thesis
    unfolding nil
    by (auto simp: GetSchemaVersion_def GetAPIVersion_def GetComponentVersion_def
          lookupVersion_def GetSchemas_def GetAPIs_def GetComponents_def GetCustom_def
          copyStrMap_def copyAnyMap_def makeStrMap_def makeAnyMap_def Let_def
        split: prod.splits)
qed

theorem absent_section_is_nil_witness:
  "(\<exists>i w1. enrichedInfo fixtureEnv (applyOptions []) svcManifest emptyWorld = (i, w1)
      \<and> APIs svcManifest = None \<and> Components svcManifest = None \<and> Custom svcManifest = None
      \<and> Schemas svcManifest \<noteq> None
      \<and> GetAPIVersion w1 i ''rest_v1'' = ([], False) \<and> GetAPIs i w1 = (None, w1)
      \<and> GetComponentVersion w1 i ''db'' = ([], False) \<and> GetComponents i w1 = (None, w1)
      \<and> GetCustom i w1 = (None, w1)
      \<and> fst (GetSchemas i w1) \<noteq> None)"
proof -
  obtain i w1 where e: "enrichedInfo fixtureEnv (applyOptions []) svcManifest emptyWorld = (i, w1)"
    by (cases "enrichedInfo fixtureEnv (applyOptions []) svcManifest emptyWorld") auto
  have m: "APIs svcManifest = None" "Components svcManifest = None" "Custom svcManifest = None"
      "Schemas svcManifest \<noteq> None"
    by (simp_all add: svcManifest_def)
  from absent_section_is_nil [OF disjI2, OF e, of w1] m e show ?thesis by blast
qed

subsection \<open>Validators run in order and stop at the first failure\<close>

lemma recording_validators_in_order:
  "runValidators (map (\<lambda>n. recordingValidator n None) ns) c info w
     = (None, w\<lparr>ext := ext w @ ns\<rparr>)"
  by (induction ns arbitrary: w) (simp_all add: recordingValidator_def)

text \<open>
  Claim C8.  Let the configured list be \<open>pre @ v # post\<close>; let the validators of \<open>pre\<close>,
  run one after the other from the world \<open>w0\<close> that the snapshot was built in, all
  accept and leave the world \<open>w1\<close>; and let \<open>v\<close>, run in \<open>w1\<close>, fail with \<open>err\<close> and leave
  \<open>w2\<close>.  Then the load fails with \<open>err\<close> wrapped in the validation category, and the
  world it leaves is \<open>w2\<close>, the world right after \<open>v\<close>: nothing of \<open>post\<close> has run,
  whatever \<open>post\<close> is.
\<close>

theorem validators_fail_fast:
  assumes "options = applyOptions opts"
    and "manifestOrDefault env options = Inr manifest"
    and "enrichedInfo env options manifest w = (info, w0)"
    and "c = (case ctx options of None \<Rightarrow> Background | Some c' \<Rightarrow> c')"
    and "validators options = pre @ v # post"
    and "runValidators pre c info w0 = (None, w1)"
    and "v c info w1 = (Some err, w2)"
  shows "runValidators (pre @ v # post) c info w0
           = (Some (wrapError err CategoryValidation ErrMsgValidationFailedWrap), w2)
         \<and> runValidators (pre @ v # post) c info w0 = runValidators (pre @ [v]) c info w0
         \<and> loadVersionInfo env opts w
           = (Inl (wrapError err CategoryValidation ErrMsgValidationFailedWrap), w2)"
proof -
  have r: "runValidators (pre @ v # rest) c info w0
           = (Some (wrapError err CategoryValidation ErrMsgValidationFailedWrap), w2)" for rest
    using assms(6,7) by (simp add: runValidators_append)
  have "loadVersionInfo env opts w
           = (Inl (wrapError err CategoryValidation ErrMsgValidationFailedWrap), w2)"
    using assms(1-5) r [of post] by (simp add: loadVersionInfo_def Let_def)
  then show ?thesis using r [of post] r [of "[]"] by simp
qed

theorem validators_fail_fast_witness:
  "runValidators [recordingValidator 1 None] Background
      (fst (enrichedInfo fixtureEnv (applyOptions []) svcManifest emptyWorld))
      (snd (enrichedInfo fixtureEnv (applyOptions []) svcManifest emptyWorld))
    = (None, (snd (enrichedInfo fixtureEnv (applyOptions []) svcManifest emptyWorld))\<lparr>ext := [1]\<rparr>)
   \<and> loadVersionInfo fixtureEnv
       [WithEmbedded svcYaml,
        WithValidators [recordingValidator 1 None,
                        recordingValidator 2 (Some (YamlError ''second validator says no'')),
                        recordingValidator 3 None]] emptyWorld
     = (Inl (wrapError (YamlError ''second validator says no'')
               CategoryValidation ErrMsgValidationFailedWrap),
        (snd (enrichedInfo fixtureEnv (applyOptions []) svcManifest emptyWorld))\<lparr>ext := [1, 2]\<rparr>)"
proof -
  let ?vs = "[recordingValidator 1 None,
              recordingValidator 2 (Some (YamlError ''second validator says no'')),
              recordingValidator 3 None]"
  let ?opts = "[WithEmbedded svcYaml, WithValidators ?vs]"
  let ?e = "enrichedInfo fixtureEnv (applyOptions []) svcManifest emptyWorld"
  have m: "manifestOrDefault fixtureEnv (applyOptions ?opts) = Inr svcManifest"
    by (simp add: manifestOrDefault_def loadManifest_def parseManifest_def option_defs
          fixture_defs)
  have e: "enrichedInfo fixtureEnv (applyOptions ?opts) svcManifest emptyWorld = (fst ?e, snd ?e)"
    by (simp add: enrichedInfo_def option_defs)
  have c: "Background = (case ctx (applyOptions ?opts) of None \<Rightarrow> Background | Some c' \<Rightarrow> c')"
    by (simp add: option_defs)
  have vs: "validators (applyOptions ?opts)
              = [recordingValidator 1 None]
                @ recordingValidator 2 (Some (YamlError ''second validator says no''))
                # [recordingValidator 3 None]"
    by (simp add: option_defs)
  have p: "runValidators [recordingValidator 1 None] Background (fst ?e) (snd ?e)
             = (None, (snd ?e)\<lparr>ext := [1]\<rparr>)"
    by (simp add: recordingValidator_def enrich_defs fixture_defs option_defs Let_def
          DAList.update.rep_eq DAList.empty.rep_eq)
  have f: "recordingValidator 2 (Some (YamlError ''second validator says no'')) Background
             (fst ?e) ((snd ?e)\<lparr>ext := [1]\<rparr>)
           = (Some (YamlError ''second validator says no''), (snd ?e)\<lparr>ext := [1, 2]\<rparr>)"
    by (simp add: recordingValidator_def)
  from validators_fail_fast [OF refl m e c vs p f] p show ?thesis by simp
qed

section \<open>Properties of the built-in validators\<close>


lemma svc_snapshot:
  "enrichedInfo fixtureEnv (applyOptions []) svcManifest emptyWorld = (svcInfo, svcWorld)"
  by (simp add: enrich_defs fixture_defs option_defs svcInfo_def svcWorld_def Let_def
        DAList.update.rep_eq DAList.empty.rep_eq)

lemma Parse_47: "Parse ''47'' = Inr \<lparr>Major = 47, Minor = 0, Patch = 0, Prerelease = [], Version.Build = []\<rparr>"
  by (simp add: Parse_def parseCore_def TrimPrefix_def Atoi_def isDigit_def digitVal_def
        maxInt_def Let_def)

lemma Parse_50: "Parse ''50'' = Inr \<lparr>Major = 50, Minor = 0, Patch = 0, Prerelease = [], Version.Build = []\<rparr>"
  by (simp add: Parse_def parseCore_def TrimPrefix_def Atoi_def isDigit_def digitVal_def
        maxInt_def Let_def)





subsection \<open>The end-to-end scenarios of the specification\<close>

lemma Parse_45: "Parse ''45'' = Inr \<lparr>Major = 45, Minor = 0, Patch = 0, Prerelease = [], Version.Build = []\<rparr>"
  by (simp add: Parse_def parseCore_def TrimPrefix_def Atoi_def isDigit_def digitVal_def
        maxInt_def Let_def)

lemma svc_load_steps:
  "manifestOrDefault fixtureEnv (applyOptions [WithEmbedded svcYaml, WithValidators vs])
     = Inr svcManifest"
  "enrichedInfo fixtureEnv (applyOptions [WithEmbedded svcYaml, WithValidators vs]) svcManifest
     emptyWorld = (svcInfo, svcWorld)"
  "validators (applyOptions [WithEmbedded svcYaml, WithValidators vs]) = vs"
  "ctx (applyOptions [WithEmbedded svcYaml, WithValidators vs]) = None"
proof -
  show "manifestOrDefault fixtureEnv (applyOptions [WithEmbedded svcYaml, WithValidators vs])
     = Inr svcManifest"
    by (simp add: manifestOrDefault_def loadManifest_def parseManifest_def option_defs
          fixture_defs)
  have "enrichedInfo fixtureEnv (applyOptions [WithEmbedded svcYaml, WithValidators vs])
          svcManifest emptyWorld
        = enrichedInfo fixtureEnv (applyOptions []) svcManifest emptyWorld"
    by (simp add: enrichedInfo_def option_defs)
  then show "enrichedInfo fixtureEnv (applyOptions [WithEmbedded svcYaml, WithValidators vs])
     svcManifest emptyWorld = (svcInfo, svcWorld)"
    by (simp add: svc_snapshot)
  show "validators (applyOptions [WithEmbedded svcYaml, WithValidators vs]) = vs"
    by (simp add: option_defs)
  show "ctx (applyOptions [WithEmbedded svcYaml, WithValidators vs]) = None"
    by (simp add: option_defs)
qed

lemma svc_db_lookup: "GetSchemaVersion svcWorld svcInfo ''db'' = (''47'', True)"
  by (simp add: GetSchemaVersion_def lookupVersion_def svcWorld_def svcInfo_def)

lemma svc_missing_lookup: "GetSchemaVersion svcWorld svcInfo ''missing_db'' = ([], False)"
  by (simp add: GetSchemaVersion_def lookupVersion_def svcWorld_def svcInfo_def
        DAList.lookup_update)

lemma end_to_end_minimum_met:
  "loadVersionInfo fixtureEnv
     [WithEmbedded svcYaml, WithValidators [Validate (NewSchemaValidator ''db'' ''45'')]] emptyWorld
   = (Inr svcInfo, svcWorld)
   \<and> GetSchemaVersion svcWorld svcInfo ''db'' = (''47'', True)"
proof -
  have "Validate (NewSchemaValidator ''db'' ''45'') Background svcInfo svcWorld = (None, svcWorld)"
    by (simp add: Validate_def NewSchemaValidator_def svc_db_lookup Parse_47 Parse_45
          LessThan_def Compare_def)
  then show ?thesis
    by (simp add: loadVersionInfo_def svc_load_steps svc_db_lookup Let_def)
qed

lemma end_to_end_too_old:
  "loadVersionInfo fixtureEnv
     [WithEmbedded svcYaml, WithValidators [Validate (NewSchemaValidator ''db'' ''50'')]] emptyWorld
   = (Inl (wrapError
            (Errorf (ErrFmtSchemaTooOld @ HintSuffix)
               [Str ''db'', Str ''47'', Str ''50'', Str ErrHintVersionTooOld])
            CategoryValidation ErrMsgValidationFailedWrap), svcWorld)"
proof -
  have "Validate (NewSchemaValidator ''db'' ''50'') Background svcInfo svcWorld
        = (Some (Errorf (ErrFmtSchemaTooOld @ HintSuffix)
               [Str ''db'', Str ''47'', Str ''50'', Str ErrHintVersionTooOld]), svcWorld)"
    by (simp add: Validate_def NewSchemaValidator_def svc_db_lookup Parse_47 Parse_50
          LessThan_def Compare_def)
  then show ?thesis
    by (simp add: loadVersionInfo_def svc_load_steps Let_def)
qed

lemma end_to_end_not_found:
  "loadVersionInfo fixtureEnv
     [WithEmbedded svcYaml, WithValidators [Validate (NewSchemaValidator ''missing_db'' ''1'')]]
     emptyWorld
   = (Inl (wrapError
            (Errorf (ErrFmtSchemaNotFound @ HintSuffix)
               [Str ''missing_db'', Str ErrHintSchemaNotFound])
            CategoryValidation ErrMsgValidationFailedWrap), svcWorld)"
proof -
  have "Validate (NewSchemaValidator ''missing_db'' ''1'') Background svcInfo svcWorld
        = (Some (Errorf (ErrFmtSchemaNotFound @ HintSuffix)
               [Str ''missing_db'', Str ErrHintSchemaNotFound]), svcWorld)"
    by (simp add: Validate_def NewSchemaValidator_def svc_missing_lookup notFoundHint_def)
  then show ?thesis
    by (simp add: loadVersionInfo_def svc_load_steps Let_def)
qed

section \<open>Properties of the map getters\<close>






















section \<open>Properties of the singleton\<close>

lemma failed_state_step:
  assumes "initOnce s" "initError s = Some err" "\<not> IsInitialized s"
  shows "callStep c (s, w) = (replyAfterFailure err c, s, w)"
proof (cases c)
  case (CallInitialize env opts)
  then show ?thesis using assms by (simp add: Initialize_def onceDo_def)
next
  case (CallGet env)
  have "Get env (s, w) = (Inl err, s, w)"
    using assms by (auto simp: Get_def onceDo_def IsInitialized_def split: option.splits)
  then show ?thesis using CallGet by simp
next
  case CallIsInitialized
  then show ?thesis using assms by simp
qed

lemma failed_state_run:
  assumes "initOnce s" "initError s = Some err" "\<not> IsInitialized s"
  shows "runCalls calls (s, w) = (map (replyAfterFailure err) calls, s, w)"
  by (induction calls) (simp_all add: failed_state_step [OF assms])

text \<open>
  Claim C9.  Let the singleton be uninitialized (\<^verbatim>\<open>Do\<close> has not run and no Info is
  stored), and let the pipeline fail with \<open>err\<close>, leaving the world \<open>w1\<close>, when
  \<^verbatim>\<open>Initialize\<close> runs it with the caller's options or when \<^verbatim>\<open>Get\<close> runs it with the
  default ones.  Then the call returns \<open>err\<close>; the state it leaves, \<open>failed\<close>, has the
  stored value it had before (no Info), \<^verbatim>\<open>IsInitialized\<close> false, and \<open>err\<close> recorded;
  and from \<open>failed\<close>, in whatever world and with whatever environments, every run of
  calls leaves state and world as they are and answers every \<^verbatim>\<open>Get\<close> with that same
  \<open>err\<close>, every \<^verbatim>\<open>IsInitialized\<close> with false and every \<^verbatim>\<open>Initialize\<close> with the
  already-initialized error: the pipeline does not run again.
\<close>

theorem failed_initialization_is_final:
  assumes "\<not> initOnce s" and "\<not> IsInitialized s"
    and "failed = s\<lparr>initError := Some err, initOnce := True\<rparr>"
  shows
   "(loadVersionInfo env opts w = (Inl err, w1) \<longrightarrow>
       Initialize env opts (s, w) = (Some err, failed, w1))
    \<and> (loadVersionInfo env [WithGitInfo, WithBuildInfo] w = (Inl err, w1) \<longrightarrow>
       Get env (s, w) = (Inl err, failed, w1))
    \<and> instanceValue failed = instanceValue s \<and> \<not> IsInitialized failed
    \<and> initError failed = Some err
    \<and> runCalls calls (failed, w2) = (map (replyAfterFailure err) calls, failed, w2)
    \<and> Get env2 (failed, w2) = (Inl err, failed, w2)"
proof -
  have f: "initOnce failed" "initError failed = Some err" "\<not> IsInitialized failed"
    using assms by (simp_all add: IsInitialized_def)
  have i: "Initialize env opts (s, w) = (Some err, failed, w1)"
    if "loadVersionInfo env opts w = (Inl err, w1)"
    using that assms by (simp add: Initialize_def onceDo_def initBody_def Let_def)
  have g: "Get env (s, w) = (Inl err, failed, w1)"
    if "loadVersionInfo env [WithGitInfo, WithBuildInfo] w = (Inl err, w1)"
    using that assms
    by (auto simp: Get_def onceDo_def initBody_def Let_def IsInitialized_def
        split: option.splits)
  have r: "runCalls calls (failed, w2) = (map (replyAfterFailure err) calls, failed, w2)"
    using f by (rule failed_state_run)
  have g2: "Get env2 (failed, w2) = (Inl err, failed, w2)"
    using failed_state_step [OF f, of "CallGet env2" w2] by (simp split: prod.splits)
  show ?thesis using i g f r g2 assms(3) by simp
qed

theorem failed_initialization_is_final_witness:
  "\<not> initOnce initialSingleton \<and> \<not> IsInitialized initialSingleton
   \<and> loadVersionInfo fixtureEnv [WithEmbedded ''garbage''] emptyWorld
       = (Inl (wrapErrorWithHint
                (wrapError (YamlError ''yaml: unmarshal errors'') CategoryManifest ErrMsgParseYAML)
                CategoryManifest ErrMsgLoadManifest ErrHintParseYAML), emptyWorld)
   \<and> runCalls [CallInitialize fixtureEnv [WithEmbedded ''garbage''],
                CallIsInitialized,
                CallGet fixtureEnv,
                CallInitialize fixtureEnv [WithEmbedded svcYaml],
                CallGet fixtureEnv]
       (initialSingleton, emptyWorld)
     = ([InitializeReturned (Some (wrapErrorWithHint
                (wrapError (YamlError ''yaml: unmarshal errors'') CategoryManifest ErrMsgParseYAML)
                CategoryManifest ErrMsgLoadManifest ErrHintParseYAML)),
         IsInitializedReturned False,
         GetReturned (Inl (wrapErrorWithHint
                (wrapError (YamlError ''yaml: unmarshal errors'') CategoryManifest ErrMsgParseYAML)
                CategoryManifest ErrMsgLoadManifest ErrHintParseYAML)),
         InitializeReturned (Some ErrInitializeMultiple),
         GetReturned (Inl (wrapErrorWithHint
                (wrapError (YamlError ''yaml: unmarshal errors'') CategoryManifest ErrMsgParseYAML)
                CategoryManifest ErrMsgLoadManifest ErrHintParseYAML))],
        initialSingleton\<lparr>initError := Some (wrapErrorWithHint
                (wrapError (YamlError ''yaml: unmarshal errors'') CategoryManifest ErrMsgParseYAML)
                CategoryManifest ErrMsgLoadManifest ErrHintParseYAML), initOnce := True\<rparr>,
        emptyWorld)"
proof -
  let ?err = "wrapErrorWithHint
                (wrapError (YamlError ''yaml: unmarshal errors'') CategoryManifest ErrMsgParseYAML)
                CategoryManifest ErrMsgLoadManifest ErrHintParseYAML"
  let ?failed = "initialSingleton\<lparr>initError := Some ?err, initOnce := True\<rparr>"
  let ?later = "[CallIsInitialized, CallGet fixtureEnv,
                 CallInitialize fixtureEnv [WithEmbedded svcYaml], CallGet fixtureEnv]
                :: (unit, nat list) call list"
  have u: "\<not> initOnce initialSingleton" "\<not> IsInitialized initialSingleton"
    by (simp_all add: initialSingleton_def IsInitialized_def)
  have l: "loadVersionInfo fixtureEnv [WithEmbedded ''garbage''] emptyWorld = (Inl ?err, emptyWorld)"
    by (simp add: loadVersionInfo_def manifestOrDefault_def loadManifest_def parseManifest_def
          option_defs fixture_defs wrapError_def)
  define later :: "(unit, nat list) call list" where "later = ?later"
  note t = failed_initialization_is_final [OF u refl, where env = fixtureEnv
        and opts = "[WithEmbedded ''garbage'']" and w = emptyWorld and err = ?err
        and ?w1.0 = emptyWorld and calls = later and ?w2.0 = emptyWorld]
  have a: "Initialize fixtureEnv [WithEmbedded ''garbage''] (initialSingleton, emptyWorld)
          = (Some ?err, ?failed, emptyWorld)"
    using t l by blast
  have b: "runCalls later (?failed, emptyWorld)
          = (map (replyAfterFailure ?err) later, ?failed, emptyWorld)"
    using t by blast
  have "runCalls (CallInitialize fixtureEnv [WithEmbedded ''garbage''] # later)
          (initialSingleton, emptyWorld)
        = (InitializeReturned (Some ?err) # map (replyAfterFailure ?err) later, ?failed, emptyWorld)"
    by (simp add: a b)
  then have "runCalls (CallInitialize fixtureEnv [WithEmbedded ''garbage''] # ?later)
          (initialSingleton, emptyWorld)
        = (InitializeReturned (Some ?err) # map (replyAfterFailure ?err) ?later, ?failed, emptyWorld)"
    unfolding later_def .
  then show ?thesis using u l by (simp del: runCalls.simps)
qed

subsection \<open>After a successful initialization\<close>

lemma ready_state_step:
  assumes "initOnce s" "instanceValue s = Some (Some info)"
  shows "callStep c (s, w) = (replyWhenReady info c, s, w)"
proof (cases c)
  case (CallInitialize env opts)
  then show ?thesis using assms by (simp add: Initialize_def onceDo_def)
next
  case (CallGet env)
  then show ?thesis using assms by (simp add: Get_def)
next
  case CallIsInitialized
  then show ?thesis using assms by (simp add: IsInitialized_def)
qed

lemma ready_state_run:
  assumes "initOnce s" "instanceValue s = Some (Some info)"
  shows "runCalls calls (s, w) = (map (replyWhenReady info) calls, s, w)"
  by (induction calls) (simp_all add: ready_state_step [OF assms])

lemma successful_initialization_publishes:
  assumes "\<not> initOnce s" and "\<not> IsInitialized s"
    and "ready = s\<lparr>initError := None, instanceValue := Some (Some info), initOnce := True\<rparr>"
  shows "loadVersionInfo env opts w = (Inr info, w1) \<Longrightarrow>
           Initialize env opts (s, w) = (None, ready, w1)"
    and "loadVersionInfo env [WithGitInfo, WithBuildInfo] w = (Inr info, w1) \<Longrightarrow>
           Get env (s, w) = (Inr info, ready, w1)"
    and "runCalls calls (ready, w2) = (map (replyWhenReady info) calls, ready, w2)"
proof -
  show "Initialize env opts (s, w) = (None, ready, w1)"
    if "loadVersionInfo env opts w = (Inr info, w1)"
    using that assms by (simp add: Initialize_def onceDo_def initBody_def Let_def)
  show "Get env (s, w) = (Inr info, ready, w1)"
    if "loadVersionInfo env [WithGitInfo, WithBuildInfo] w = (Inr info, w1)"
    using that assms
    by (auto simp: Get_def onceDo_def initBody_def Let_def IsInitialized_def
        split: option.splits)
  show "runCalls calls (ready, w2) = (map (replyWhenReady info) calls, ready, w2)"
    using assms(3) by (intro ready_state_run) simp_all
qed

end
